theory Spec2Isabelle
  imports Complex_Main "HOL-Library.List_Lexorder" "HOL-Library.Char_ord"
begin

section \<open>Python strings\<close>

text \<open>
  A Python \<open>str\<close> is modelled as a \<open>string\<close> whose characters are the code points
  below 256. In that range the regular expression class \<open>\d\<close> matches the ten ASCII
  digits only, \<open>str.strip\<close> removes the code points 9 to 13, 28 to 32, 133 and 160,
  and \<open>str.lower\<close> maps \<open>A-Z\<close> and the accented capitals 192 to 222 (without 215)
  to the letter 32 places later.
\<close>

definition is_digit :: "char \<Rightarrow> bool" where
  "is_digit c = (c \<in> set ''0123456789'')"

definition is_space :: "char \<Rightarrow> bool" where
  "is_space c = ((of_char c :: nat) \<in> {9, 10, 11, 12, 13, 28, 29, 30, 31, 32, 133, 160})"

definition strip :: "string \<Rightarrow> string" where
  "strip s = rev (dropWhile is_space (rev (dropWhile is_space s)))"

definition lower_char :: "char \<Rightarrow> char" where
  "lower_char c =
     (let n = (of_char c :: nat)
      in if (65 \<le> n \<and> n \<le> 90) \<or> (192 \<le> n \<and> n \<le> 222 \<and> n \<noteq> 215)
         then char_of (n + 32) else c)"

definition lower :: "string \<Rightarrow> string" where
  "lower s = map lower_char s"

text \<open>\<open>s.endswith(suf)\<close>.\<close>

definition endswith :: "string \<Rightarrow> string \<Rightarrow> bool" where
  "endswith s suf = (length suf \<le> length s \<and> drop (length s - length suf) s = suf)"

text \<open>
  \<open>re.match(r'^\d{7}$', s)\<close>. In Python \<open>$\<close> matches at the end of the string and
  also just before a newline that ends the string, so seven digits followed by one
  newline match as well.
\<close>

definition match_d7 :: "string \<Rightarrow> bool" where
  "match_d7 s = (7 \<le> length s \<and> list_all is_digit (take 7 s) \<and>
                 (drop 7 s = [] \<or> drop 7 s = [CHR 0x0A]))"

text \<open>\<open>re.match(r'^\d{1,7}$', s)\<close>: one to seven digits, then the end as above.\<close>

definition match_d1_7 :: "string \<Rightarrow> bool" where
  "match_d1_7 s =
     (let ds = takeWhile is_digit s; r = drop (length ds) s
      in (1 \<le> length ds \<and> length ds \<le> 7 \<and> (r = [] \<or> r = [CHR 0x0A])))"

text \<open>\<open>str(code)\<close> for an argument that is \<open>None\<close> or a \<open>str\<close>.\<close>

definition py_str :: "string option \<Rightarrow> string" where
  "py_str code = (case code of None \<Rightarrow> ''None'' | Some s \<Rightarrow> s)"

section \<open>PRIMo importer: hierarchy level and parent code\<close>

text \<open>
  \<^verbatim>\<open>
  def parse_hierarchy_level(code):
      if not code or not re.match(r'^\d{7}$', str(code)):
          return None
      c = str(code)
      if c.endswith('000'): return 1
      elif c.endswith('00'): return 2
      else: return 3
  \<close>
  The argument is \<open>None\<close> or a string; \<open>not code\<close> holds for \<open>None\<close> and for the
  empty string.
\<close>

definition parse_hierarchy_level :: "string option \<Rightarrow> int option" where
  "parse_hierarchy_level code =
     (if code = None \<or> code = Some [] \<or> \<not> match_d7 (py_str code) then None
      else let c = py_str code
           in if endswith c ''000'' then Some 1
              else if endswith c ''00'' then Some 2
              else Some 3)"

text \<open>
  \<^verbatim>\<open>
  def parent_code(code):
      c = str(code)
      if not re.match(r'^\d{7}$', c) or c.endswith('000'):
          return None
      if c.endswith('00'):
          return c[:4] + '000'
      elif c[-2:] != '00':
          return c[:5] + '000'
      return None
  \<close>
\<close>

definition parent_code :: "string option \<Rightarrow> string option" where
  "parent_code code =
     (let c = py_str code
      in if \<not> match_d7 c \<or> endswith c ''000'' then None
         else if endswith c ''00'' then Some (take 4 c @ ''000'')
         else if drop (length c - 2) c \<noteq> ''00'' then Some (take 5 c @ ''000'')
         else None)"

section \<open>Python values and exceptions\<close>

text \<open>
  The values that \<open>json.load\<close> returns. A Python \<open>float\<close> is modelled by the real
  number it denotes. A \<open>dict\<close> is the association list of its items; \<open>map_of\<close>
  looks a key up.
\<close>

datatype pyval =
    PNone
  | PBool bool
  | PInt int
  | PFloat real
  | PStr string
  | PList "pyval list"
  | PDict "(string \<times> pyval) list"

datatype py_error =
    AttributeError
  | TypeError
  | ValueError
  | IndexError
  | FileNotFoundError

text \<open>How a call of a script ends: it returns, it calls \<open>sys.exit\<close> with a message, or
  an exception that nothing catches ends it.\<close>

datatype 'r outcome =
    Returned 'r
  | Exited string
  | Raised py_error

definition ebind :: "'e + 'a \<Rightarrow> ('a \<Rightarrow> 'e + 'b) \<Rightarrow> 'e + 'b" where
  "ebind m f = (case m of Inl e \<Rightarrow> Inl e | Inr x \<Rightarrow> f x)"

text \<open>A \<open>for\<close> loop whose body may raise: the first exception ends the loop.\<close>

fun for_each :: "('a \<Rightarrow> 's \<Rightarrow> 'e + 's) \<Rightarrow> 'a list \<Rightarrow> 's \<Rightarrow> 'e + 's" where
  "for_each body [] s = Inr s"
| "for_each body (x # xs) s =
     (case body x s of Inl e \<Rightarrow> Inl e | Inr s' \<Rightarrow> for_each body xs s')"

fun truthy :: "pyval \<Rightarrow> bool" where
  "truthy PNone = False"
| "truthy (PBool b) = b"
| "truthy (PInt n) = (n \<noteq> 0)"
| "truthy (PFloat r) = (r \<noteq> 0)"
| "truthy (PStr s) = (s \<noteq> [])"
| "truthy (PList xs) = (xs \<noteq> [])"
| "truthy (PDict kvs) = (kvs \<noteq> [])"

text \<open>\<open>a or b\<close> on values.\<close>

definition py_or :: "pyval \<Rightarrow> pyval \<Rightarrow> pyval" where
  "py_or a b = (if truthy a then a else b)"

text \<open>\<open>d.get(k)\<close>: only a \<open>dict\<close> has the method.\<close>

fun dict_get :: "pyval \<Rightarrow> string \<Rightarrow> py_error + pyval" where
  "dict_get (PDict kvs) k = (case map_of kvs k of None \<Rightarrow> Inr PNone | Some v \<Rightarrow> Inr v)"
| "dict_get _ k = Inl AttributeError"

text \<open>\<open>v.strip()\<close>: only a \<open>str\<close> has the method.\<close>

fun str_strip :: "pyval \<Rightarrow> py_error + string" where
  "str_strip (PStr s) = Inr (strip s)"
| "str_strip _ = Inl AttributeError"

text \<open>\<open>(d.get(k) or "").strip()\<close>, the idiom of the JSON importers.\<close>

definition get_stripped :: "pyval \<Rightarrow> string \<Rightarrow> py_error + string" where
  "get_stripped d k = ebind (dict_get d k) (\<lambda>v. str_strip (py_or v (PStr [])))"

text \<open>What a \<open>for\<close> statement iterates over: the items of a list, the keys of a dict,
  the characters of a string; other values are not iterable.\<close>

fun py_iter :: "pyval \<Rightarrow> py_error + pyval list" where
  "py_iter (PList xs) = Inr xs"
| "py_iter (PDict kvs) = Inr (map (\<lambda>kv. PStr (fst kv)) kvs)"
| "py_iter (PStr s) = Inr (map (\<lambda>c. PStr [c]) s)"
| "py_iter _ = Inl TypeError"

text \<open>\<open>s.split(",")\<close>.\<close>

fun split_comma :: "string \<Rightarrow> string list" where
  "split_comma [] = [[]]"
| "split_comma (c # cs) =
     (if c = CHR '','' then [] # split_comma cs
      else (case split_comma cs of [] \<Rightarrow> [[c]] | x # xs \<Rightarrow> (c # x) # xs))"

text \<open>
  \<open>float(v)\<close>. The conversion of text is the interpreter's and is a parameter here:
  \<open>fl s\<close> is the number \<open>float(s)\<close> returns, \<open>None\<close> when it raises \<open>ValueError\<close>.
\<close>

fun py_float :: "(string \<Rightarrow> real option) \<Rightarrow> pyval \<Rightarrow> py_error + real" where
  "py_float fl (PStr s) = (case fl s of None \<Rightarrow> Inl ValueError | Some r \<Rightarrow> Inr r)"
| "py_float fl (PInt n) = Inr (of_int n)"
| "py_float fl (PFloat r) = Inr r"
| "py_float fl (PBool b) = Inr (if b then 1 else 0)"
| "py_float fl _ = Inl TypeError"

text \<open>
  \<open>int(s)\<close> for a string: white space around the text is ignored, then an optional
  sign and decimal digits, where single underscores may separate digits; anything else
  raises \<open>ValueError\<close>, which is \<open>None\<close> here.
\<close>

definition digit_val :: "char \<Rightarrow> nat" where
  "digit_val c = of_char c - 48"

fun digits_ok :: "string \<Rightarrow> bool" where
  "digits_ok [] = False"
| "digits_ok [c] = is_digit c"
| "digits_ok (c # d # cs) =
     (is_digit c \<and> (if d = CHR ''_'' then digits_ok cs else digits_ok (d # cs)))"

definition digits_nat :: "string \<Rightarrow> nat" where
  "digits_nat s = foldl (\<lambda>n c. 10 * n + digit_val c) 0 (filter is_digit s)"

definition py_int :: "string \<Rightarrow> int option" where
  "py_int s =
     (case strip s of
        [] \<Rightarrow> None
      | c # cs \<Rightarrow>
          if c = CHR ''-'' then (if digits_ok cs then Some (- int (digits_nat cs)) else None)
          else if c = CHR ''+'' then (if digits_ok cs then Some (int (digits_nat cs)) else None)
          else if digits_ok (c # cs) then Some (int (digits_nat (c # cs))) else None)"

section \<open>The database\<close>

text \<open>
  The scripts write to a SQLite database whose schema is not part of the repository.
  Each table is modelled as the list of its rows, and a row by the columns that some
  script names; the rows of \<open>crops\<close> and \<open>eppo_codes\<close> carry their remaining columns
  as an opaque list. Identifier and natural-key columns hold values; a column is
  optional where a script writes or tests \<open>NULL\<close>.
\<close>

datatype sqlval = SqlNull | SqlInt int | SqlReal real | SqlText string

type_synonym other_cols = "(string \<times> sqlval) list"

record crop_row =
  crop_id :: int
  common_name_en :: string
  scientific_name :: "string option"
  is_food_crop :: int
  crop_notes :: "string option"
  crop_other :: other_cols

record eppo_row =
  eppo_code_id :: int
  eppo_code :: string
  eppo_name :: string
  taxon_level :: "string option"
  eppo_crop_id :: int
  eppo_other :: other_cols

record scenario_row =
  scenario_id :: int
  scenario_code :: string
  scenario_type_id :: int

record focus_crop_row =
  focus_crop_id :: int
  swash_crop_name :: string
  bbch_sowing_min :: "int option"
  bbch_sowing_max :: "int option"
  bbch_harvest_min :: "int option"
  bbch_harvest_max :: "int option"
  canopy_type :: "string option"
  root_depth_m :: "real option"
  lai_max :: "real option"

record link_row =
  link_focus_crop_id :: int
  link_scenario_id :: int
  waterbody_type :: "string option"
  is_default_run :: int

record interception_row =
  ic_focus_crop_id :: int
  bbch_stage :: int
  interception_pct :: real
  interception_source :: string

record characteristics_row =
  ch_scenario_id :: int
  ch_scenario_code :: string
  weather_dataset_name :: string
  latitude_deg :: "real option"
  longitude_deg :: "real option"
  mean_annual_temp_c :: "real option"
  annual_rainfall_mm :: "real option"
  topsoil_texture :: "string option"
  topsoil_organic_carbon_pct :: "real option"
  slope_pct :: "string option"
  water_bodies :: "string option"
  source_reference :: string

record irrigation_row =
  ir_focus_crop_id :: int
  ir_scenario_id :: int
  irrigation_mm_annual :: real
  ir_source_reference :: string

record primo_row =
  pr_crop_id :: int
  primo_version :: string
  primo_code :: string
  primo_name :: string
  unit_weight_g :: "real option"

record reg396_row =
  rg_crop_id :: int
  annex1_code :: string
  annex1_name :: string
  hierarchy_level :: int
  parent_annex1_code :: "string option"
  regulation_version :: string

record database =
  crops :: "crop_row list"
  eppo_codes :: "eppo_row list"
  focus_scenarios :: "scenario_row list"
  focus_crops :: "focus_crop_row list"
  focus_crop_scenario_links :: "link_row list"
  focus_crop_interception :: "interception_row list"
  focus_sw_scenario_characteristics :: "characteristics_row list"
  focus_crop_scenario_irrigation :: "irrigation_row list"
  primo_commodities :: "primo_row list"
  reg396_commodities :: "reg396_row list"

text \<open>
  What the missing schema decides is a parameter: for each table a script inserts
  into, when a new row collides with an existing one on a uniqueness constraint, and
  for the two tables of the PRIMo importer, whose inserts are guarded by
  \<open>try\<close>/\<open>except\<close>, the message of the exception the database raises for a row, if
  any. Elsewhere the statements are taken to be accepted.
\<close>

record schema =
  link_conflict :: "link_row \<Rightarrow> link_row \<Rightarrow> bool"
  interception_conflict :: "interception_row \<Rightarrow> interception_row \<Rightarrow> bool"
  characteristics_conflict :: "characteristics_row \<Rightarrow> characteristics_row \<Rightarrow> bool"
  irrigation_conflict :: "irrigation_row \<Rightarrow> irrigation_row \<Rightarrow> bool"
  primo_conflict :: "primo_row \<Rightarrow> primo_row \<Rightarrow> bool"
  reg396_conflict :: "reg396_row \<Rightarrow> reg396_row \<Rightarrow> bool"
  primo_error :: "database \<Rightarrow> primo_row \<Rightarrow> string option"
  reg396_error :: "database \<Rightarrow> reg396_row \<Rightarrow> string option"

text \<open>\<open>INSERT OR IGNORE\<close>: a colliding row is dropped. \<open>INSERT OR REPLACE\<close>: the rows it
  collides with are deleted first.\<close>

definition insert_or_ignore :: "('r \<Rightarrow> 'r \<Rightarrow> bool) \<Rightarrow> 'r \<Rightarrow> 'r list \<Rightarrow> 'r list" where
  "insert_or_ignore cf r t = (if \<exists>x \<in> set t. cf r x then t else t @ [r])"

definition insert_or_replace :: "('r \<Rightarrow> 'r \<Rightarrow> bool) \<Rightarrow> 'r \<Rightarrow> 'r list \<Rightarrow> 'r list" where
  "insert_or_replace cf r t = filter (\<lambda>x. \<not> cf r x) t @ [r]"

text \<open>
  A connection holds the stored database and the working copy of the open
  transaction. Statements act on the working copy; \<open>commit\<close> stores it; closing the
  connection, or leaving the process, without \<open>commit\<close> discards it.
\<close>

record connection =
  stored :: database
  working :: database

definition connect :: "database \<Rightarrow> connection" where
  "connect db = \<lparr>stored = db, working = db\<rparr>"

definition commit :: "connection \<Rightarrow> connection" where
  "commit c = c\<lparr>stored := working c\<rparr>"

definition close :: "connection \<Rightarrow> database" where
  "close c = stored c"

text \<open>The three look-ups by natural key; \<open>fetchone\<close> takes the first row.\<close>

definition select_focus_crop_id :: "database \<Rightarrow> string \<Rightarrow> int option" where
  "select_focus_crop_id db name =
     map_option focus_crop_id (find (\<lambda>r. swash_crop_name r = name) (focus_crops db))"

definition select_scenario_id :: "database \<Rightarrow> string \<Rightarrow> int option" where
  "select_scenario_id db code =
     map_option scenario_id (find (\<lambda>r. scenario_code r = code) (focus_scenarios db))"

definition select_sw_scenario_id :: "database \<Rightarrow> string \<Rightarrow> int option" where
  "select_sw_scenario_id db code =
     map_option scenario_id
       (find (\<lambda>r. scenario_code r = code \<and> scenario_type_id r = 1) (focus_scenarios db))"

section \<open>Interception importer\<close>

text \<open>
  \<open>INTERCEPTION_DATA\<close> maps a crop name to its list of
  \<open>(bbch_stage, pct, source)\<close> entries, in the order of the dict; \<open>pct\<close> is \<open>None\<close>
  for an entry that is still a stub. The importer is modelled for any such table
  (\<open>import_interception_from\<close>), and \<open>import_interception\<close> is its run on the table of
  the source file. The report holds the three counters of the function and the crop
  names of the warnings it prints.
  \<^verbatim>\<open>
  for crop_name, stages in INTERCEPTION_DATA.items():
      cur.execute("SELECT focus_crop_id FROM focus_crops WHERE swash_crop_name = ?", ...)
      fc = cur.fetchone()
      if not fc:
          print(f"  WARNING: '{crop_name}' not found in focus_crops ...")
          skipped += 1
          continue
      fid = fc[0]
      for (bbch, pct, source) in stages:
          if pct is None:
              stubbed += 1
              continue
          if not dry_run:
              cur.execute("INSERT OR REPLACE INTO focus_crop_interception ...")
              inserted += 1
  if not dry_run:
      conn.commit()
  conn.close()
  \<close>
\<close>

type_synonym stage_entry = "int \<times> real option \<times> string"

type_synonym interception_data = "(string \<times> stage_entry list) list"

record interception_report =
  ic_inserted :: nat
  ic_stubbed :: nat
  ic_skipped :: nat
  ic_warned :: "string list"

definition interception_stage ::
  "schema \<Rightarrow> bool \<Rightarrow> int \<Rightarrow> stage_entry \<Rightarrow> database \<times> interception_report
     \<Rightarrow> py_error + database \<times> interception_report" where
  "interception_stage sch dry_run fid entry st =
     (case entry of (bbch, pct, source) \<Rightarrow>
        (case pct of
           None \<Rightarrow> Inr (fst st, (snd st)\<lparr>ic_stubbed := ic_stubbed (snd st) + 1\<rparr>)
         | Some p \<Rightarrow>
             if dry_run then Inr st
             else Inr ((fst st)\<lparr>focus_crop_interception :=
                          insert_or_replace (interception_conflict sch)
                            \<lparr>ic_focus_crop_id = fid, bbch_stage = bbch,
                             interception_pct = p, interception_source = source\<rparr>
                            (focus_crop_interception (fst st))\<rparr>,
                       (snd st)\<lparr>ic_inserted := ic_inserted (snd st) + 1\<rparr>)))"

definition interception_crop ::
  "schema \<Rightarrow> bool \<Rightarrow> string \<times> stage_entry list \<Rightarrow> database \<times> interception_report
     \<Rightarrow> py_error + database \<times> interception_report" where
  "interception_crop sch dry_run item st =
     (case item of (crop_name, stages) \<Rightarrow>
        (case select_focus_crop_id (fst st) crop_name of
           None \<Rightarrow> Inr (fst st, (snd st)\<lparr>ic_skipped := ic_skipped (snd st) + 1,
                                          ic_warned := ic_warned (snd st) @ [crop_name]\<rparr>)
         | Some fid \<Rightarrow> for_each (interception_stage sch dry_run fid) stages st))"

definition import_interception_from ::
  "interception_data \<Rightarrow> schema \<Rightarrow> database \<Rightarrow> bool
     \<Rightarrow> interception_report outcome \<times> database" where
  "import_interception_from table sch db dry_run =
     (let c = connect db
      in case for_each (interception_crop sch dry_run) table
                (working c, \<lparr>ic_inserted = 0, ic_stubbed = 0, ic_skipped = 0, ic_warned = []\<rparr>) of
           Inl e \<Rightarrow> (Raised e, close c)
         | Inr (w, rep) \<Rightarrow>
             (Returned rep,
              close (if dry_run then c\<lparr>working := w\<rparr> else commit (c\<lparr>working := w\<rparr>))))"

text \<open>The table of the source file. Every entry is a stub. The label's dash is the
  character U+2014, outside the modelled range, and is written as a hyphen here.\<close>

definition stub_first :: string where
  "stub_first = ''EFSA 2020 Repair Action Table 7 - STUB: fill from paper''"

definition stub :: string where
  "stub = ''EFSA 2020 Repair Action Table 7 - STUB''"

definition arable_stages :: "stage_entry list" where
  "arable_stages = map (\<lambda>b. (b, None, stub)) [0, 10, 20, 30, 40, 50, 60, 70, 80, 90]"

definition permanent_stages :: "stage_entry list" where
  "permanent_stages = map (\<lambda>b. (b, None, stub)) [0, 51, 60, 71, 81, 91]"

definition INTERCEPTION_DATA :: interception_data where
  "INTERCEPTION_DATA =
     [(''Winter cereals'',
         (0, None, stub_first) # map (\<lambda>b. (b, None, stub)) [10, 20, 30, 40, 50, 60, 70, 80, 90]),
      (''Spring cereals'', arable_stages),
      (''Maize'', arable_stages),
      (''Winter oilseed rape'', arable_stages),
      (''Potatoes'', arable_stages),
      (''Sugar beet'', arable_stages),
      (''Apples and pears'', permanent_stages),
      (''Vines'', permanent_stages),
      (''Grass'', [(0, None, stub)])]"

definition import_interception ::
  "schema \<Rightarrow> database \<Rightarrow> bool \<Rightarrow> interception_report outcome \<times> database" where
  "import_interception sch db dry_run = import_interception_from INTERCEPTION_DATA sch db dry_run"

section \<open>FOCUS characteristics and irrigation importer\<close>

text \<open>
  A JSON file is given by the value \<open>json.load\<close> returns for it, \<open>None\<close> when there
  is no such file. Messages are kept without the path they interpolate.
\<close>

definition load_json :: "pyval option \<Rightarrow> py_error + pyval" where
  "load_json file = (case file of None \<Rightarrow> Inl FileNotFoundError | Some v \<Rightarrow> Inr v)"

text \<open>\<open>float(v) if v is not None else None\<close> and \<open>(v or "").strip() or None\<close>.\<close>

definition opt_float :: "(string \<Rightarrow> real option) \<Rightarrow> pyval \<Rightarrow> py_error + real option" where
  "opt_float fl v = (if v = PNone then Inr None else ebind (py_float fl v) (\<lambda>r. Inr (Some r)))"

definition opt_text :: "pyval \<Rightarrow> py_error + string option" where
  "opt_text v =
     ebind (str_strip (py_or v (PStr []))) (\<lambda>s. Inr (if s = [] then None else Some s))"

definition SOURCE_REF :: string where
  "SOURCE_REF = ''Generic FOCUS SWS v1.4 May 2015''"

text \<open>
  \<open>import_characteristics\<close>: the report holds the counter \<open>updated\<close> and the scenario
  codes of the lines \<open>Skip scenario ...: not found in focus_scenarios\<close> it prints. The
  arguments of the \<open>INSERT OR REPLACE\<close> are evaluated from left to right, and only when
  \<open>dry_run\<close> is false.
\<close>

record characteristics_report =
  ch_updated :: nat
  ch_skip_printed :: "string list"

definition characteristics_values ::
  "(string \<Rightarrow> real option) \<Rightarrow> pyval \<Rightarrow> int \<Rightarrow> string \<Rightarrow> py_error + characteristics_row" where
  "characteristics_values fl s sid code =
     ebind (get_stripped s ''weather_dataset_name'') (\<lambda>weather.
     ebind (ebind (dict_get s ''latitude_deg'') (opt_float fl)) (\<lambda>lat.
     ebind (ebind (dict_get s ''longitude_deg'') (opt_float fl)) (\<lambda>lon.
     ebind (ebind (dict_get s ''mean_annual_temp_c'') (opt_float fl)) (\<lambda>temp.
     ebind (ebind (dict_get s ''annual_rainfall_mm'') (opt_float fl)) (\<lambda>rain.
     ebind (ebind (dict_get s ''topsoil_texture'') opt_text) (\<lambda>texture.
     ebind (ebind (dict_get s ''topsoil_organic_carbon_pct'') (opt_float fl)) (\<lambda>carbon.
     ebind (ebind (dict_get s ''slope_pct'') opt_text) (\<lambda>slope.
     ebind (ebind (dict_get s ''water_bodies'') opt_text) (\<lambda>bodies.
       Inr \<lparr>ch_scenario_id = sid, ch_scenario_code = code, weather_dataset_name = weather,
            latitude_deg = lat, longitude_deg = lon, mean_annual_temp_c = temp,
            annual_rainfall_mm = rain, topsoil_texture = texture,
            topsoil_organic_carbon_pct = carbon, slope_pct = slope, water_bodies = bodies,
            source_reference = SOURCE_REF\<rparr>)))))))))"

definition characteristics_step ::
  "schema \<Rightarrow> (string \<Rightarrow> real option) \<Rightarrow> bool \<Rightarrow> pyval
     \<Rightarrow> database \<times> characteristics_report \<Rightarrow> py_error + database \<times> characteristics_report" where
  "characteristics_step sch fl dry_run s st =
     ebind (get_stripped s ''scenario_code'') (\<lambda>code.
       if code = [] then Inr st
       else case select_sw_scenario_id (fst st) code of
         None \<Rightarrow> Inr (fst st, (snd st)\<lparr>ch_skip_printed := ch_skip_printed (snd st) @ [code]\<rparr>)
       | Some sid \<Rightarrow>
           if dry_run then Inr (fst st, (snd st)\<lparr>ch_updated := ch_updated (snd st) + 1\<rparr>)
           else ebind (characteristics_values fl s sid code) (\<lambda>r.
                  Inr ((fst st)\<lparr>focus_sw_scenario_characteristics :=
                          insert_or_replace (characteristics_conflict sch) r
                            (focus_sw_scenario_characteristics (fst st))\<rparr>,
                       (snd st)\<lparr>ch_updated := ch_updated (snd st) + 1\<rparr>)))"

text \<open>\<open>data.get(a) or data.get(b) or []\<close>.\<close>

definition get_array :: "pyval \<Rightarrow> string \<Rightarrow> py_error + pyval" where
  "get_array d k =
     ebind (dict_get d k) (\<lambda>a. if truthy a then Inr a
       else ebind (dict_get d ''items'') (\<lambda>b. Inr (py_or b (PList []))))"

definition import_characteristics ::
  "schema \<Rightarrow> (string \<Rightarrow> real option) \<Rightarrow> pyval option \<Rightarrow> database \<Rightarrow> bool
     \<Rightarrow> characteristics_report outcome \<times> database" where
  "import_characteristics sch fl json_file db dry_run =
     (case ebind (load_json json_file) (\<lambda>d. get_array d ''scenarios'') of
        Inl e \<Rightarrow> (Raised e, db)
      | Inr scenarios \<Rightarrow>
          if \<not> truthy scenarios then (Exited ''No 'scenarios' or 'items' array'', db)
          else
            let c = connect db
            in (case ebind (py_iter scenarios) (\<lambda>items.
                      for_each (characteristics_step sch fl dry_run) items
                        (working c, \<lparr>ch_updated = 0, ch_skip_printed = []\<rparr>)) of
                 Inl e \<Rightarrow> (Raised e, close c)
               | Inr (w, rep) \<Rightarrow>
                   (Returned rep,
                    close (if dry_run then c\<lparr>working := w\<rparr> else commit (c\<lparr>working := w\<rparr>)))))"

text \<open>\<open>import_irrigation\<close>: the report holds \<open>inserted\<close> and the list \<open>skipped\<close>.\<close>

record irrigation_report =
  ir_inserted :: nat
  ir_skipped :: "(string \<times> string) list"

definition irrigation_step ::
  "schema \<Rightarrow> (string \<Rightarrow> real option) \<Rightarrow> bool \<Rightarrow> pyval
     \<Rightarrow> database \<times> irrigation_report \<Rightarrow> py_error + database \<times> irrigation_report" where
  "irrigation_step sch fl dry_run r st =
     ebind (get_stripped r ''scenario_code'') (\<lambda>code.
     ebind (get_stripped r ''crop'') (\<lambda>crop.
     ebind (dict_get r ''irrigation_mm_annual'') (\<lambda>mm.
       if code = [] \<or> crop = [] \<or> mm = PNone then Inr st
       else case (select_sw_scenario_id (fst st) code, select_focus_crop_id (fst st) crop) of
         (Some sid, Some fid) \<Rightarrow>
           if dry_run then Inr (fst st, (snd st)\<lparr>ir_inserted := ir_inserted (snd st) + 1\<rparr>)
           else ebind (py_float fl mm) (\<lambda>x.
                  Inr ((fst st)\<lparr>focus_crop_scenario_irrigation :=
                          insert_or_replace (irrigation_conflict sch)
                            \<lparr>ir_focus_crop_id = fid, ir_scenario_id = sid,
                             irrigation_mm_annual = x, ir_source_reference = SOURCE_REF\<rparr>
                            (focus_crop_scenario_irrigation (fst st))\<rparr>,
                       (snd st)\<lparr>ir_inserted := ir_inserted (snd st) + 1\<rparr>))
       | _ \<Rightarrow> Inr (fst st, (snd st)\<lparr>ir_skipped := ir_skipped (snd st) @ [(code, crop)]\<rparr>))))"

definition import_irrigation ::
  "schema \<Rightarrow> (string \<Rightarrow> real option) \<Rightarrow> pyval option \<Rightarrow> database \<Rightarrow> bool
     \<Rightarrow> irrigation_report outcome \<times> database" where
  "import_irrigation sch fl json_file db dry_run =
     (case ebind (load_json json_file) (\<lambda>d. get_array d ''irrigation'') of
        Inl e \<Rightarrow> (Raised e, db)
      | Inr rows \<Rightarrow>
          if \<not> truthy rows then (Exited ''No 'irrigation' or 'items' array'', db)
          else
            let c = connect db
            in (case ebind (py_iter rows) (\<lambda>items.
                      for_each (irrigation_step sch fl dry_run) items
                        (working c, \<lparr>ir_inserted = 0, ir_skipped = []\<rparr>)) of
                 Inl e \<Rightarrow> (Raised e, close c)
               | Inr (w, rep) \<Rightarrow>
                   (Returned rep,
                    close (if dry_run then c\<lparr>working := w\<rparr> else commit (c\<lparr>working := w\<rparr>)))))"

text \<open>
  \<open>main\<close> of the script. The database file and the two JSON files are each present
  or absent. The report says for each importer whether it ran (\<open>None\<close>: its file was
  not found and a line \<open>Skip ...: not found\<close> was printed).
  \<^verbatim>\<open>
  if not os.path.exists(args.db):
      sys.exit(f"Database not found: {args.db}")
  dry_run = not args.apply
  if os.path.exists(args.char_json):
      import_characteristics(args.char_json, args.db, dry_run)
  else:
      print(f"Skip characteristics: {args.char_json} not found")
  if os.path.exists(args.irr_json):
      import_irrigation(args.irr_json, args.db, dry_run)
  else:
      print(f"Skip irrigation: {args.irr_json} not found")
  \<close>
\<close>

record main_report =
  mr_characteristics :: "characteristics_report option"
  mr_irrigation :: "irrigation_report option"

definition main_irrigation ::
  "schema \<Rightarrow> (string \<Rightarrow> real option) \<Rightarrow> pyval option \<Rightarrow> bool
     \<Rightarrow> characteristics_report option \<Rightarrow> database \<Rightarrow> main_report outcome \<times> database" where
  "main_irrigation sch fl irr_json dry_run ch db =
     (if irr_json \<noteq> None then
        (case import_irrigation sch fl irr_json db dry_run of
           (Returned rep, db') \<Rightarrow>
             (Returned \<lparr>mr_characteristics = ch, mr_irrigation = Some rep\<rparr>, db')
         | (Exited msg, db') \<Rightarrow> (Exited msg, db')
         | (Raised e, db') \<Rightarrow> (Raised e, db'))
      else (Returned \<lparr>mr_characteristics = ch, mr_irrigation = None\<rparr>, db))"

definition main ::
  "schema \<Rightarrow> (string \<Rightarrow> real option) \<Rightarrow> pyval option \<Rightarrow> pyval option \<Rightarrow> database option
     \<Rightarrow> bool \<Rightarrow> main_report outcome \<times> database option" where
  "main sch fl char_json irr_json db_file apply_flag =
     (case db_file of
        None \<Rightarrow> (Exited ''Database not found'', None)
      | Some db \<Rightarrow>
          let dry_run = \<not> apply_flag
          in if char_json \<noteq> None then
               (case import_characteristics sch fl char_json db dry_run of
                  (Returned rep, db') \<Rightarrow>
                    map_prod id Some (main_irrigation sch fl irr_json dry_run (Some rep) db')
                | (Exited msg, db') \<Rightarrow> (Exited msg, Some db')
                | (Raised e, db') \<Rightarrow> (Raised e, Some db'))
             else map_prod id Some (main_irrigation sch fl irr_json dry_run None db))"

section \<open>SWASH crop-scenario links from JSON\<close>

text \<open>
  \<open>import_links\<close>: the report holds \<open>inserted\<close> and the list \<open>skipped\<close> of
  \<open>(crop_name, None)\<close> for an unknown crop and \<open>(crop_name, scen_code)\<close> for an
  unknown scenario.
  \<^verbatim>\<open>
  for row in items:
      crop_name = (row.get("crop") or "").strip()
      scenarios = row.get("scenarios")
      if not crop_name or not scenarios:
          continue
      if isinstance(scenarios, str):
          scenarios = [s.strip() for s in scenarios.split(",") if s.strip()]
      cur.execute("SELECT focus_crop_id FROM focus_crops WHERE swash_crop_name = ?", ...)
      fc = cur.fetchone()
      if not fc:
          skipped.append((crop_name, None))
          continue
      focus_crop_id = fc[0]
      for scen_code in scenarios:
          cur.execute("SELECT scenario_id FROM focus_scenarios WHERE scenario_code = ?",
                      (scen_code.strip(),))
          sc = cur.fetchone()
          if not sc:
              skipped.append((crop_name, scen_code))
              continue
          inserted += 1
          if not dry_run:
              cur.execute("INSERT OR IGNORE INTO focus_crop_scenario_links ... VALUES (?, ?, NULL, 1)")
  \<close>
\<close>

record links_report =
  ln_inserted :: nat
  ln_skipped :: "(string \<times> string option) list"

definition links_scenario ::
  "schema \<Rightarrow> bool \<Rightarrow> string \<Rightarrow> int \<Rightarrow> pyval \<Rightarrow> database \<times> links_report
     \<Rightarrow> py_error + database \<times> links_report" where
  "links_scenario sch dry_run crop_name fid scen st =
     (case scen of
        PStr scen_code \<Rightarrow>
          (case select_scenario_id (fst st) (strip scen_code) of
             None \<Rightarrow> Inr (fst st, (snd st)\<lparr>ln_skipped :=
                                   ln_skipped (snd st) @ [(crop_name, Some scen_code)]\<rparr>)
           | Some sid \<Rightarrow>
               Inr (if dry_run then fst st
                    else (fst st)\<lparr>focus_crop_scenario_links :=
                           insert_or_ignore (link_conflict sch)
                             \<lparr>link_focus_crop_id = fid, link_scenario_id = sid,
                              waterbody_type = None, is_default_run = 1\<rparr>
                             (focus_crop_scenario_links (fst st))\<rparr>,
                    (snd st)\<lparr>ln_inserted := ln_inserted (snd st) + 1\<rparr>))
      | _ \<Rightarrow> Inl AttributeError)"

text \<open>The list comprehension over \<open>scenarios.split(",")\<close>.\<close>

definition split_scenarios :: "string \<Rightarrow> pyval" where
  "split_scenarios s =
     PList (map (\<lambda>x. PStr (strip x)) (filter (\<lambda>x. strip x \<noteq> []) (split_comma s)))"

definition links_step ::
  "schema \<Rightarrow> bool \<Rightarrow> pyval \<Rightarrow> database \<times> links_report
     \<Rightarrow> py_error + database \<times> links_report" where
  "links_step sch dry_run row st =
     ebind (get_stripped row ''crop'') (\<lambda>crop_name.
     ebind (dict_get row ''scenarios'') (\<lambda>scenarios.
       if crop_name = [] \<or> \<not> truthy scenarios then Inr st
       else
         let scenarios' = (case scenarios of PStr s \<Rightarrow> split_scenarios s | _ \<Rightarrow> scenarios)
         in case select_focus_crop_id (fst st) crop_name of
              None \<Rightarrow> Inr (fst st, (snd st)\<lparr>ln_skipped :=
                                    ln_skipped (snd st) @ [(crop_name, None)]\<rparr>)
            | Some fid \<Rightarrow>
                ebind (py_iter scenarios') (\<lambda>scens.
                  for_each (links_scenario sch dry_run crop_name fid) scens st)))"

definition import_links ::
  "schema \<Rightarrow> pyval option \<Rightarrow> database \<Rightarrow> bool \<Rightarrow> links_report outcome \<times> database" where
  "import_links sch json_file db dry_run =
     (case ebind (load_json json_file) (\<lambda>d.
             ebind (dict_get d ''crop_scenarios'') (\<lambda>a.
               if truthy a then Inr a else dict_get d ''items'')) of
        Inl e \<Rightarrow> (Raised e, db)
      | Inr items \<Rightarrow>
          if \<not> truthy items then (Exited ''JSON must contain 'crop_scenarios' or 'items' array'', db)
          else
            let c = connect db
            in (case ebind (py_iter items) (\<lambda>rows.
                      for_each (links_step sch dry_run) rows
                        (working c, \<lparr>ln_inserted = 0, ln_skipped = []\<rparr>)) of
                 Inl e \<Rightarrow> (Raised e, close c)
               | Inr (w, rep) \<Rightarrow>
                   (Returned rep,
                    close (if dry_run then c\<lparr>working := w\<rparr> else commit (c\<lparr>working := w\<rparr>)))))"

section \<open>SWASH importer from CSV exports\<close>

text \<open>
  A row of \<open>csv.DictReader\<close> maps the column names of the header to text; a column
  the row is too short for has the value \<open>None\<close>. A CSV file is the list of its rows,
  \<open>None\<close> when there is no such file.
\<close>

type_synonym csv_row = "(string \<times> string option) list"

text \<open>\<open>row.get(k, default).strip()\<close>.\<close>

definition csv_get :: "csv_row \<Rightarrow> string \<Rightarrow> string \<Rightarrow> py_error + string" where
  "csv_get row k dflt =
     (case map_of row k of
        None \<Rightarrow> Inr (strip dflt)
      | Some None \<Rightarrow> Inl AttributeError
      | Some (Some s) \<Rightarrow> Inr (strip s))"

text \<open>\<open>if col(k): updates[...] = int(col(k))\<close>, and the same with \<open>float\<close> and with
  the text itself; \<open>None\<close> when the column is blank, so the key is not in \<open>updates\<close>.\<close>

definition int_col :: "csv_row \<Rightarrow> string \<Rightarrow> py_error + int option" where
  "int_col row k =
     ebind (csv_get row k []) (\<lambda>s.
       if s = [] then Inr None
       else case py_int s of None \<Rightarrow> Inl ValueError | Some n \<Rightarrow> Inr (Some n))"

definition float_col :: "(string \<Rightarrow> real option) \<Rightarrow> csv_row \<Rightarrow> string \<Rightarrow> py_error + real option" where
  "float_col fl row k =
     ebind (csv_get row k []) (\<lambda>s.
       if s = [] then Inr None
       else case fl s of None \<Rightarrow> Inl ValueError | Some r \<Rightarrow> Inr (Some r))"

definition text_col :: "csv_row \<Rightarrow> string \<Rightarrow> py_error + string option" where
  "text_col row k = ebind (csv_get row k []) (\<lambda>s. Inr (if s = [] then None else Some s))"

text \<open>The dict \<open>updates\<close>: for each of the seven columns the new value, if any.\<close>

record crop_updates =
  u_bbch_sowing_min :: "int option"
  u_bbch_sowing_max :: "int option"
  u_bbch_harvest_min :: "int option"
  u_bbch_harvest_max :: "int option"
  u_canopy_type :: "string option"
  u_root_depth_m :: "real option"
  u_lai_max :: "real option"

definition read_updates :: "(string \<Rightarrow> real option) \<Rightarrow> csv_row \<Rightarrow> py_error + crop_updates" where
  "read_updates fl row =
     ebind (int_col row ''BBCHemergenceMin'') (\<lambda>a.
     ebind (int_col row ''BBCHemergenceMax'') (\<lambda>b.
     ebind (int_col row ''BBCHharvestMin'') (\<lambda>c.
     ebind (int_col row ''BBCHharvestMax'') (\<lambda>d.
     ebind (text_col row ''CanopyType'') (\<lambda>e.
     ebind (float_col fl row ''RootDepth'') (\<lambda>f.
     ebind (float_col fl row ''LAImax'') (\<lambda>g.
       Inr \<lparr>u_bbch_sowing_min = a, u_bbch_sowing_max = b, u_bbch_harvest_min = c,
            u_bbch_harvest_max = d, u_canopy_type = e, u_root_depth_m = f,
            u_lai_max = g\<rparr>)))))))"

definition no_updates :: "crop_updates \<Rightarrow> bool" where
  "no_updates u =
     (u_bbch_sowing_min u = None \<and> u_bbch_sowing_max u = None \<and> u_bbch_harvest_min u = None \<and>
      u_bbch_harvest_max u = None \<and> u_canopy_type u = None \<and> u_root_depth_m u = None \<and>
      u_lai_max u = None)"

definition set_col :: "'a option \<Rightarrow> 'a option \<Rightarrow> 'a option" where
  "set_col new old = (case new of None \<Rightarrow> old | Some v \<Rightarrow> Some v)"

definition apply_updates :: "crop_updates \<Rightarrow> focus_crop_row \<Rightarrow> focus_crop_row" where
  "apply_updates u r =
     r\<lparr>bbch_sowing_min := set_col (u_bbch_sowing_min u) (bbch_sowing_min r),
       bbch_sowing_max := set_col (u_bbch_sowing_max u) (bbch_sowing_max r),
       bbch_harvest_min := set_col (u_bbch_harvest_min u) (bbch_harvest_min r),
       bbch_harvest_max := set_col (u_bbch_harvest_max u) (bbch_harvest_max r),
       canopy_type := set_col (u_canopy_type u) (canopy_type r),
       root_depth_m := set_col (u_root_depth_m u) (root_depth_m r),
       lai_max := set_col (u_lai_max u) (lai_max r)\<rparr>"

text \<open>\<open>UPDATE focus_crops SET ... WHERE focus_crop_id = ?\<close>.\<close>

definition update_focus_crop :: "int \<Rightarrow> crop_updates \<Rightarrow> database \<Rightarrow> database" where
  "update_focus_crop fid u db =
     db\<lparr>focus_crops :=
          map (\<lambda>r. if focus_crop_id r = fid then apply_updates u r else r) (focus_crops db)\<rparr>"

record csv_report =
  cs_updated_crops :: nat
  cs_skipped_crops :: "string list"
  cs_inserted :: nat
  cs_skipped :: "(string \<times> string) list"

definition csv_crop_step ::
  "(string \<Rightarrow> real option) \<Rightarrow> bool \<Rightarrow> csv_row \<Rightarrow> database \<times> csv_report
     \<Rightarrow> py_error + database \<times> csv_report" where
  "csv_crop_step fl dry_run row st =
     ebind (csv_get row ''CropName'' []) (\<lambda>name.
       if name = [] then Inr st
       else case select_focus_crop_id (fst st) name of
         None \<Rightarrow> Inr (fst st, (snd st)\<lparr>cs_skipped_crops := cs_skipped_crops (snd st) @ [name]\<rparr>)
       | Some fid \<Rightarrow>
           ebind (read_updates fl row) (\<lambda>u.
             if \<not> no_updates u \<and> \<not> dry_run
             then Inr (update_focus_crop fid u (fst st),
                       (snd st)\<lparr>cs_updated_crops := cs_updated_crops (snd st) + 1\<rparr>)
             else Inr st))"

text \<open>\<open>int(row.get("IsDefault", "1") or 1)\<close>.\<close>

definition is_default_col :: "csv_row \<Rightarrow> py_error + int" where
  "is_default_col row =
     (case map_of row ''IsDefault'' of
        None \<Rightarrow> Inr 1
      | Some None \<Rightarrow> Inr 1
      | Some (Some s) \<Rightarrow>
          if s = [] then Inr 1
          else (case py_int s of None \<Rightarrow> Inl ValueError | Some n \<Rightarrow> Inr n))"

definition csv_link_step ::
  "schema \<Rightarrow> bool \<Rightarrow> csv_row \<Rightarrow> database \<times> csv_report
     \<Rightarrow> py_error + database \<times> csv_report" where
  "csv_link_step sch dry_run row st =
     ebind (csv_get row ''CropName'' []) (\<lambda>crop_name.
     ebind (csv_get row ''ScenarioCode'' []) (\<lambda>scen_code.
     ebind (csv_get row ''WaterbodyType'' []) (\<lambda>waterbody.
     ebind (is_default_col row) (\<lambda>is_default.
       case (select_focus_crop_id (fst st) crop_name, select_scenario_id (fst st) scen_code) of
         (Some fid, Some sid) \<Rightarrow>
           if dry_run then Inr st
           else Inr ((fst st)\<lparr>focus_crop_scenario_links :=
                        insert_or_ignore (link_conflict sch)
                          \<lparr>link_focus_crop_id = fid, link_scenario_id = sid,
                           waterbody_type = Some waterbody, is_default_run = is_default\<rparr>
                          (focus_crop_scenario_links (fst st))\<rparr>,
                     (snd st)\<lparr>cs_inserted := cs_inserted (snd st) + 1\<rparr>)
       | _ \<Rightarrow> Inr (fst st, (snd st)\<lparr>cs_skipped :=
                            cs_skipped (snd st) @ [(crop_name, scen_code)]\<rparr>)))))"

definition import_from_csv ::
  "schema \<Rightarrow> (string \<Rightarrow> real option) \<Rightarrow> csv_row list option \<Rightarrow> csv_row list option
     \<Rightarrow> database \<Rightarrow> bool \<Rightarrow> csv_report outcome \<times> database" where
  "import_from_csv sch fl crop_csv cs_csv db dry_run =
     (case crop_csv of
        None \<Rightarrow> (Exited ''Not found: crop.csv'', db)
      | Some crops_rows \<Rightarrow>
          (case cs_csv of
             None \<Rightarrow> (Exited ''Not found: cropscenario.csv'', db)
           | Some cs_rows \<Rightarrow>
               let c = connect db
               in (case ebind (for_each (csv_crop_step fl dry_run) crops_rows
                                (working c, \<lparr>cs_updated_crops = 0, cs_skipped_crops = [],
                                             cs_inserted = 0, cs_skipped = []\<rparr>))
                          (for_each (csv_link_step sch dry_run) cs_rows) of
                    Inl e \<Rightarrow> (Raised e, close c)
                  | Inr (w, rep) \<Rightarrow>
                      (Returned rep,
                       close (if dry_run then c\<lparr>working := w\<rparr>
                              else commit (c\<lparr>working := w\<rparr>))))))"

text \<open>
  \<open>import_from_mdb\<close> exports the two tables of the Access database to CSV files and
  calls \<open>import_from_csv\<close>. The database is given by its two tables as exported,
  \<open>None\<close> when it cannot be opened.
\<close>

definition import_from_mdb ::
  "bool \<Rightarrow> schema \<Rightarrow> (string \<Rightarrow> real option) \<Rightarrow> (csv_row list \<times> csv_row list) option
     \<Rightarrow> database \<Rightarrow> bool \<Rightarrow> csv_report outcome \<times> database" where
  "import_from_mdb has_pyodbc sch fl mdb db dry_run =
     (if \<not> has_pyodbc then (Exited ''pyodbc not installed. Run: pip install pyodbc'', db)
      else case mdb of
        None \<Rightarrow> (Exited ''Could not open SWASH MDB'', db)
      | Some (crop_table, cs_table) \<Rightarrow>
          import_from_csv sch fl (Some crop_table) (Some cs_table) db dry_run)"

section \<open>EPPO verifier\<close>

text \<open>
  The two endpoints of the REST API are functions of the EPPO code: each call either
  raises (the message of the exception) or returns the JSON of the answer, typed as
  the API documents it: a taxon has an optional \<open>fullname\<close>, a name entry an optional
  \<open>langiso\<close>, \<open>preferred\<close> and \<open>fullname\<close>.
\<close>

record taxon =
  t_fullname :: "string option"

record name_entry =
  langiso :: "string option"
  preferred :: "int option"
  fullname :: "string option"

record eppo_api =
  get_taxon :: "string \<Rightarrow> string + taxon"
  get_names :: "string \<Rightarrow> string + name_entry list"

text \<open>
  The rows the verifier reads:
  \<open>SELECT ... FROM eppo_codes e JOIN crops c ON e.crop_id = c.crop_id ORDER BY e.eppo_code\<close>.
  Rows with equal codes keep the order of the tables.
\<close>

definition select_eppo_rows :: "database \<Rightarrow> (eppo_row \<times> crop_row) list" where
  "select_eppo_rows db =
     sort_key (\<lambda>ec. eppo_code (fst ec))
       (concat (map (\<lambda>e. map (Pair e) (filter (\<lambda>c. crop_id c = eppo_crop_id e) (crops db)))
                    (eppo_codes db)))"

datatype issue = NameMismatch string string | ApiError string

record verify_report =
  v_issues :: "(string \<times> issue) list"
  v_updates :: "(string \<times> string \<times> int) list"

text \<open>The preferred English name: the \<open>fullname\<close> of the first entry with
  \<open>langiso == "en"\<close> and \<open>preferred == 1\<close>.\<close>

definition api_pref_name :: "name_entry list \<Rightarrow> string option" where
  "api_pref_name names =
     (case find (\<lambda>n. langiso n = Some ''en'' \<and> preferred n = Some 1) names of
        None \<Rightarrow> None
      | Some n \<Rightarrow> fullname n)"

text \<open>
  The body of the loop over the rows:
  \<^verbatim>\<open>
  try:
      taxon = get_taxon(session, token, code)
      names = get_names(session, token, code)
      api_pref_name = ...
      api_sci_name = taxon.get("fullname", "")
      db_name = row["eppo_name"]
      if api_pref_name and api_pref_name.lower() != db_name.lower():
          issues.append((code, status))
          updates.append((api_pref_name, api_sci_name, row["eppo_code_id"]))
  except Exception as e:
      issues.append((code, str(e)))
  \<close>
\<close>

definition verify_row :: "eppo_api \<Rightarrow> verify_report \<Rightarrow> eppo_row \<times> crop_row \<Rightarrow> verify_report" where
  "verify_row api rep ec =
     (let code = eppo_code (fst ec)
      in case get_taxon api code of
           Inl msg \<Rightarrow> rep\<lparr>v_issues := v_issues rep @ [(code, ApiError msg)]\<rparr>
         | Inr tx \<Rightarrow>
             (case get_names api code of
                Inl msg \<Rightarrow> rep\<lparr>v_issues := v_issues rep @ [(code, ApiError msg)]\<rparr>
              | Inr names \<Rightarrow>
                  (case api_pref_name names of
                     None \<Rightarrow> rep
                   | Some pref \<Rightarrow>
                       if pref \<noteq> [] \<and> lower pref \<noteq> lower (eppo_name (fst ec))
                       then rep\<lparr>v_issues := v_issues rep @
                                   [(code, NameMismatch (eppo_name (fst ec)) pref)],
                                v_updates := v_updates rep @
                                   [(pref, case_option [] id (t_fullname tx),
                                     eppo_code_id (fst ec))]\<rparr>
                       else rep)))"

text \<open>
  One correction:
  \<^verbatim>\<open>
  cur.execute("UPDATE eppo_codes SET eppo_name = ? WHERE eppo_code_id = ?", (new_name, eppo_id))
  if new_sci:
      cur.execute("""UPDATE crops SET scientific_name = ?
          WHERE crop_id = (SELECT crop_id FROM eppo_codes WHERE eppo_code_id = ?)
          AND (scientific_name IS NULL OR scientific_name = '')""", (new_sci, eppo_id))
  \<close>
\<close>

definition update_eppo_name :: "string \<Rightarrow> int \<Rightarrow> database \<Rightarrow> database" where
  "update_eppo_name new_name eppo_id db =
     db\<lparr>eppo_codes :=
          map (\<lambda>e. if eppo_code_id e = eppo_id then e\<lparr>eppo_name := new_name\<rparr> else e)
            (eppo_codes db)\<rparr>"

definition update_scientific_name :: "string \<Rightarrow> int \<Rightarrow> database \<Rightarrow> database" where
  "update_scientific_name new_sci eppo_id db =
     (case find (\<lambda>e. eppo_code_id e = eppo_id) (eppo_codes db) of
        None \<Rightarrow> db
      | Some e \<Rightarrow>
          db\<lparr>crops :=
               map (\<lambda>c. if crop_id c = eppo_crop_id e \<and>
                            (scientific_name c = None \<or> scientific_name c = Some [])
                         then c\<lparr>scientific_name := Some new_sci\<rparr> else c)
                 (crops db)\<rparr>)"

definition apply_correction :: "database \<Rightarrow> string \<times> string \<times> int \<Rightarrow> database" where
  "apply_correction db u =
     (case u of (new_name, new_sci, eppo_id) \<Rightarrow>
        (let db1 = update_eppo_name new_name eppo_id db
         in if new_sci \<noteq> [] then update_scientific_name new_sci eppo_id db1 else db1))"

text \<open>\<open>verify_codes\<close>. Without the \<open>requests\<close> library it prints a message and
  returns (\<open>None\<close> as its report).\<close>

definition verify_codes ::
  "bool \<Rightarrow> eppo_api \<Rightarrow> database \<Rightarrow> bool \<Rightarrow> verify_report option outcome \<times> database" where
  "verify_codes has_requests api db dry_run =
     (let c = connect db; rows = select_eppo_rows (working c)
      in if \<not> has_requests then (Returned None, close c)
         else
           let rep = foldl (verify_row api) \<lparr>v_issues = [], v_updates = []\<rparr> rows
           in if v_updates rep \<noteq> [] \<and> \<not> dry_run
              then (Returned (Some rep),
                    close (commit (c\<lparr>working := foldl apply_correction (working c) (v_updates rep)\<rparr>)))
              else (Returned (Some rep), close c))"

section \<open>PRIMo workbook importer\<close>

text \<open>
  A cell of the sheet as \<open>openpyxl\<close> returns it with \<open>values_only\<close>: empty, a truth
  value, an integer, a float (given with the text \<open>str\<close> prints for it) or text.
  A workbook is the list of its sheets, each a name and its rows, \<open>None\<close> when the
  file cannot be loaded.
\<close>

datatype cell = CNone | CBool bool | CInt int | CFloat real string | CStr string

fun cell_truthy :: "cell \<Rightarrow> bool" where
  "cell_truthy CNone = False"
| "cell_truthy (CBool b) = b"
| "cell_truthy (CInt n) = (n \<noteq> 0)"
| "cell_truthy (CFloat r t) = (r \<noteq> 0)"
| "cell_truthy (CStr s) = (s \<noteq> [])"

text \<open>\<open>str(n)\<close> for an integer.\<close>

fun show_nat :: "nat \<Rightarrow> string" where
  "show_nat n =
     (if n < 10 then [char_of (48 + n)]
      else show_nat (n div 10) @ [char_of (48 + n mod 10)])"

declare show_nat.simps [simp del]

definition show_int :: "int \<Rightarrow> string" where
  "show_int i = (if i < 0 then CHR ''-'' # show_nat (nat (- i)) else show_nat (nat i))"

fun cell_str :: "cell \<Rightarrow> string" where
  "cell_str CNone = ''None''"
| "cell_str (CBool b) = (if b then ''True'' else ''False'')"
| "cell_str (CInt n) = show_int n"
| "cell_str (CFloat r t) = t"
| "cell_str (CStr s) = s"

text \<open>\<open>str(row[i] or "").strip()\<close> and \<open>float(v) if v else None\<close>.\<close>

definition cell_at :: "cell list \<Rightarrow> nat \<Rightarrow> py_error + cell" where
  "cell_at row i = (if i < length row then Inr (row ! i) else Inl IndexError)"

definition cell_text :: "cell \<Rightarrow> string" where
  "cell_text v = strip (if cell_truthy v then cell_str v else [])"

fun cell_float :: "(string \<Rightarrow> real option) \<Rightarrow> cell \<Rightarrow> py_error + real option" where
  "cell_float fl (CStr s) =
     (if s = [] then Inr None
      else (case fl s of None \<Rightarrow> Inl ValueError | Some r \<Rightarrow> Inr (Some r)))"
| "cell_float fl (CInt n) = Inr (if n = 0 then None else Some (of_int n))"
| "cell_float fl (CFloat r t) = Inr (if r = 0 then None else Some r)"
| "cell_float fl (CBool b) = Inr (if b then Some 1 else None)"
| "cell_float fl CNone = Inr None"

text \<open>\<open>s.zfill(7)\<close>.\<close>

definition zfill7 :: "string \<Rightarrow> string" where
  "zfill7 s =
     (if 7 \<le> length s then s
      else case s of
        [] \<Rightarrow> replicate 7 CHR ''0''
      | c # cs \<Rightarrow>
          if c = CHR ''+'' \<or> c = CHR ''-''
          then c # replicate (7 - length s) CHR ''0'' @ cs
          else replicate (7 - length s) CHR ''0'' @ s)"

definition SHEET_COMMODITY :: string where
  "SHEET_COMMODITY = ''Commodity list''"

definition HEADER_ROWS :: nat where
  "HEADER_ROWS = 3"

definition UNKNOWN_CROP :: string where
  "UNKNOWN_CROP = ''Unknown (unmapped)''"

definition REGULATION_VERSION :: string where
  "REGULATION_VERSION = ''Reg (EC) No 396/2005 (as in PRIMo Rev 3.1)''"

text \<open>
  The placeholder crop: the first row named \<open>Unknown (unmapped)\<close>, or a new row. The
  new row gets the next row id (\<open>cur.lastrowid\<close>) and the defaults of the columns
  the statement does not name.
\<close>

definition next_rowid :: "int list \<Rightarrow> int" where
  "next_rowid ids = (if ids = [] then 1 else Max (set ids) + 1)"

definition unknown_crop :: "database \<Rightarrow> database \<times> int" where
  "unknown_crop db =
     (case find (\<lambda>c. common_name_en c = UNKNOWN_CROP) (crops db) of
        Some c \<Rightarrow> (db, crop_id c)
      | None \<Rightarrow>
          (let new_id = next_rowid (map crop_id (crops db))
           in (db\<lparr>crops := crops db @
                  [\<lparr>crop_id = new_id, common_name_en = UNKNOWN_CROP, scientific_name = None,
                    is_food_crop = 0,
                    crop_notes = Some (''Placeholder for PRIMo commodities not yet matched to a crop_id. '' @
                                       ''Update crop_id after reviewing the commodity name.''),
                    crop_other = []\<rparr>]\<rparr>,
               new_id)))"

text \<open>
  The loop over the rows of the sheet collects the two lists of rows to insert.
  \<^verbatim>\<open>
  if not any(row): continue
  annex1_code  = str(row[COL_ANNEX1_CODE - 1] or "").strip()
  annex1_name  = str(row[COL_ANNEX1_NAME - 1] or "").strip()
  primo_name   = str(row[COL_PRIMO_NAME  - 1] or "").strip()
  unit_weight  = row[COL_UNIT_WEIGHT - 1]
  if not annex1_code or not annex1_name: continue
  if re.match(r'^\d{1,7}$', annex1_code):
      annex1_code = annex1_code.zfill(7)
  hlevel = parse_hierarchy_level(annex1_code)
  pcode  = parent_code(annex1_code)
  reg396_rows.append({... "hierarchy_level": hlevel or 3, "parent_annex1_code": pcode, ...})
  if primo_name:
      primo_rows.append({... "unit_weight_g": float(unit_weight) if unit_weight else None})
  \<close>
\<close>

definition reg396_dict :: "int \<Rightarrow> string \<Rightarrow> string \<Rightarrow> reg396_row" where
  "reg396_dict unknown_crop_id code name =
     \<lparr>rg_crop_id = unknown_crop_id, annex1_code = code, annex1_name = name,
      hierarchy_level = (case parse_hierarchy_level (Some code) of None \<Rightarrow> 3 | Some l \<Rightarrow> l),
      parent_annex1_code = parent_code (Some code),
      regulation_version = REGULATION_VERSION\<rparr>"

definition primo_dict :: "int \<Rightarrow> string \<Rightarrow> string \<Rightarrow> string \<Rightarrow> real option \<Rightarrow> primo_row" where
  "primo_dict unknown_crop_id version code pname w =
     \<lparr>pr_crop_id = unknown_crop_id, primo_version = version, primo_code = code,
      primo_name = pname, unit_weight_g = w\<rparr>"

definition primo_parse_row ::
  "(string \<Rightarrow> real option) \<Rightarrow> int \<Rightarrow> string \<Rightarrow> cell list
     \<Rightarrow> reg396_row list \<times> primo_row list \<Rightarrow> py_error + reg396_row list \<times> primo_row list" where
  "primo_parse_row fl unknown_crop_id version row acc =
     (if \<not> list_ex cell_truthy row then Inr acc
      else
        ebind (cell_at row 0) (\<lambda>c0.
        ebind (cell_at row 1) (\<lambda>c1.
        ebind (cell_at row 2) (\<lambda>c2.
        ebind (cell_at row 3) (\<lambda>unit_weight.
          let code0 = cell_text c0; name = cell_text c1; pname = cell_text c2
          in if code0 = [] \<or> name = [] then Inr acc
             else
               let code = (if match_d1_7 code0 then zfill7 code0 else code0);
                   reg = reg396_dict unknown_crop_id code name
               in if pname = [] then Inr (fst acc @ [reg], snd acc)
                  else ebind (cell_float fl unit_weight) (\<lambda>w.
                         Inr (fst acc @ [reg],
                              snd acc @ [primo_dict unknown_crop_id version code pname w])))))))"

record primo_report =
  parsed_reg396 :: nat
  parsed_primo :: nat
  inserted_r :: nat
  skipped_r :: nat
  inserted_p :: nat
  skipped_p :: nat
  skip_printed :: "(string \<times> string) list"

text \<open>The two insert loops: an exception of the statement is caught, printed and
  counted; otherwise the row counts as inserted, also when it is ignored.\<close>

definition insert_reg396 ::
  "schema \<Rightarrow> database \<times> primo_report \<Rightarrow> reg396_row \<Rightarrow> database \<times> primo_report" where
  "insert_reg396 sch st r =
     (case reg396_error sch (fst st) r of
        Some msg \<Rightarrow> (fst st, (snd st)\<lparr>skipped_r := skipped_r (snd st) + 1,
                                       skip_printed := skip_printed (snd st) @ [(annex1_code r, msg)]\<rparr>)
      | None \<Rightarrow>
          ((fst st)\<lparr>reg396_commodities :=
              insert_or_ignore (reg396_conflict sch) r (reg396_commodities (fst st))\<rparr>,
           (snd st)\<lparr>inserted_r := inserted_r (snd st) + 1\<rparr>))"

definition insert_primo ::
  "schema \<Rightarrow> database \<times> primo_report \<Rightarrow> primo_row \<Rightarrow> database \<times> primo_report" where
  "insert_primo sch st r =
     (case primo_error sch (fst st) r of
        Some msg \<Rightarrow> (fst st, (snd st)\<lparr>skipped_p := skipped_p (snd st) + 1,
                                       skip_printed := skip_printed (snd st) @ [(take 30 (primo_name r), msg)]\<rparr>)
      | None \<Rightarrow>
          ((fst st)\<lparr>primo_commodities :=
              insert_or_ignore (primo_conflict sch) r (primo_commodities (fst st))\<rparr>,
           (snd st)\<lparr>inserted_p := inserted_p (snd st) + 1\<rparr>))"

definition import_primo ::
  "bool \<Rightarrow> schema \<Rightarrow> (string \<Rightarrow> real option) \<Rightarrow> (string \<times> cell list list) list option
     \<Rightarrow> database \<Rightarrow> bool \<Rightarrow> string \<Rightarrow> primo_report outcome \<times> database" where
  "import_primo has_openpyxl sch fl workbook db dry_run version =
     (if \<not> has_openpyxl then (Exited ''openpyxl not installed. Run: pip install openpyxl'', db)
      else case workbook of
        None \<Rightarrow> (Raised FileNotFoundError, db)
      | Some wb \<Rightarrow>
          (case map_of wb SHEET_COMMODITY of
             None \<Rightarrow> (Exited ''Adjust SHEET_COMMODITY constant.'', db)
           | Some ws \<Rightarrow>
               let c = connect db;
                   (w, unknown_crop_id) = unknown_crop (working c);
                   c1 = c\<lparr>working := w\<rparr>
               in (case for_each (primo_parse_row fl unknown_crop_id version)
                          (drop HEADER_ROWS ws) ([], []) of
                     Inl e \<Rightarrow> (Raised e, close c1)
                   | Inr (reg396_rows, primo_rows) \<Rightarrow>
                       let rep0 = \<lparr>parsed_reg396 = length reg396_rows,
                                   parsed_primo = length primo_rows,
                                   inserted_r = 0, skipped_r = 0, inserted_p = 0,
                                   skipped_p = 0, skip_printed = []\<rparr>
                       in if dry_run then (Returned rep0, close c1)
                          else
                            let st1 = foldl (insert_reg396 sch) (working c1, rep0) reg396_rows;
                                st2 = foldl (insert_primo sch) st1 primo_rows
                            in (Returned (snd st2), close (commit (c1\<lparr>working := fst st2\<rparr>))))))"

section \<open>Example data\<close>

text \<open>A schema whose uniqueness constraints are the natural keys of the tables and
  that raises no exception, a small database, an API and a text-to-float conversion,
  used to evaluate the importers on concrete inputs.\<close>

definition schema0 :: schema where
  "schema0 =
     \<lparr>link_conflict = (\<lambda>a b. link_focus_crop_id a = link_focus_crop_id b \<and>
                              link_scenario_id a = link_scenario_id b),
      interception_conflict = (\<lambda>a b. ic_focus_crop_id a = ic_focus_crop_id b \<and>
                                      bbch_stage a = bbch_stage b),
      characteristics_conflict = (\<lambda>a b. ch_scenario_id a = ch_scenario_id b),
      irrigation_conflict = (\<lambda>a b. ir_focus_crop_id a = ir_focus_crop_id b \<and>
                                    ir_scenario_id a = ir_scenario_id b),
      primo_conflict = (\<lambda>a b. primo_version a = primo_version b \<and> primo_code a = primo_code b),
      reg396_conflict = (\<lambda>a b. annex1_code a = annex1_code b),
      primo_error = (\<lambda>d r. None),
      reg396_error = (\<lambda>d r. None)\<rparr>"

definition wheat :: crop_row where
  "wheat = \<lparr>crop_id = 1, common_name_en = ''Wheat'', scientific_name = None,
            is_food_crop = 1, crop_notes = None, crop_other = []\<rparr>"

definition barley :: crop_row where
  "barley = \<lparr>crop_id = 2, common_name_en = ''Barley'', scientific_name = Some ''Hordeum'',
             is_food_crop = 1, crop_notes = None, crop_other = []\<rparr>"

definition eppo_wheat :: eppo_row where
  "eppo_wheat = \<lparr>eppo_code_id = 1, eppo_code = ''TRZAX'', eppo_name = ''wheat'',
                 taxon_level = None, eppo_crop_id = 1, eppo_other = []\<rparr>"

definition eppo_barley :: eppo_row where
  "eppo_barley = \<lparr>eppo_code_id = 2, eppo_code = ''HORVX'', eppo_name = ''BARLEY'',
                  taxon_level = None, eppo_crop_id = 2, eppo_other = []\<rparr>"

definition cereals :: focus_crop_row where
  "cereals = \<lparr>focus_crop_id = 1, swash_crop_name = ''Winter cereals'',
              bbch_sowing_min = None, bbch_sowing_max = None, bbch_harvest_min = None,
              bbch_harvest_max = None, canopy_type = None, root_depth_m = None,
              lai_max = None\<rparr>"

definition db0 :: database where
  "db0 =
     \<lparr>crops = [wheat, barley],
      eppo_codes = [eppo_wheat, eppo_barley],
      focus_scenarios = [\<lparr>scenario_id = 1, scenario_code = ''D1'', scenario_type_id = 1\<rparr>],
      focus_crops = [cereals],
      focus_crop_scenario_links = [],
      focus_crop_interception = [],
      focus_sw_scenario_characteristics = [],
      focus_crop_scenario_irrigation = [],
      primo_commodities = [],
      reg396_commodities = []\<rparr>"

definition api0 :: eppo_api where
  "api0 =
     \<lparr>get_taxon = (\<lambda>code. if code = ''TRZAX'' then Inr \<lparr>t_fullname = Some ''Triticum aestivum''\<rparr>
                           else if code = ''HORVX'' then Inr \<lparr>t_fullname = Some ''Hordeum vulgare''\<rparr>
                           else Inl ''404''),
      get_names = (\<lambda>code. if code = ''TRZAX''
                           then Inr [\<lparr>langiso = Some ''fr'', preferred = Some 1, fullname = Some ''ble''\<rparr>,
                                     \<lparr>langiso = Some ''en'', preferred = Some 1,
                                      fullname = Some ''Common wheat''\<rparr>]
                           else if code = ''HORVX''
                           then Inr [\<lparr>langiso = Some ''en'', preferred = Some 1,
                                      fullname = Some ''Barley''\<rparr>]
                           else Inl ''404'')\<rparr>"

definition fl0 :: "string \<Rightarrow> real option" where
  "fl0 s = map_option of_int (py_int s)"

section \<open>What the interception importer upserts\<close>

text \<open>
  The entries of the table the claims speak of: \<open>matched_crops\<close> are the crops of the
  table with a row in \<open>focus_crops\<close> (with the id of the first such row),
  \<open>unmatched_crops\<close> the names of the others, \<open>filled_rows\<close> the rows of the entries
  with a percentage under a matched crop, in the order of the table, and
  \<open>counted_stubs\<close> the number of entries without a percentage under a matched crop.
\<close>

definition stage_rows :: "int \<Rightarrow> stage_entry list \<Rightarrow> interception_row list" where
  "stage_rows fid stages =
     concat (map (\<lambda>e. case e of (bbch, pct, source) \<Rightarrow>
                    (case pct of None \<Rightarrow> []
                     | Some p \<Rightarrow> [\<lparr>ic_focus_crop_id = fid, bbch_stage = bbch,
                                  interception_pct = p, interception_source = source\<rparr>]))
                 stages)"

definition stub_count :: "stage_entry list \<Rightarrow> nat" where
  "stub_count stages = length (filter (\<lambda>e. fst (snd e) = None) stages)"

definition matched_crops :: "database \<Rightarrow> interception_data \<Rightarrow> (int \<times> stage_entry list) list" where
  "matched_crops db table =
     concat (map (\<lambda>item. case select_focus_crop_id db (fst item) of
                            None \<Rightarrow> [] | Some fid \<Rightarrow> [(fid, snd item)]) table)"

definition unmatched_crops :: "database \<Rightarrow> interception_data \<Rightarrow> string list" where
  "unmatched_crops db table =
     filter (\<lambda>name. select_focus_crop_id db name = None) (map fst table)"

definition filled_rows :: "database \<Rightarrow> interception_data \<Rightarrow> interception_row list" where
  "filled_rows db table = concat (map (\<lambda>m. stage_rows (fst m) (snd m)) (matched_crops db table))"

definition counted_stubs :: "database \<Rightarrow> interception_data \<Rightarrow> nat" where
  "counted_stubs db table = sum_list (map (\<lambda>m. stub_count (snd m)) (matched_crops db table))"

definition upsert_interception :: "schema \<Rightarrow> interception_row list \<Rightarrow> database \<Rightarrow> database" where
  "upsert_interception sch rows db =
     db\<lparr>focus_crop_interception :=
          foldl (\<lambda>t r. insert_or_replace (interception_conflict sch) r t)
            (focus_crop_interception db) rows\<rparr>"

definition table1 :: interception_data where
  "table1 = [(''Winter cereals'', [(0, Some 25, ''x''), (10, None, ''y'')]),
             (''Grass'', [(0, Some 90, ''z''), (5, None, ''q'')])]"

section \<open>What the verifier queues and changes\<close>

text \<open>
  The terms of the claims about the verifier. The API returns a preferred English
  name for a code when both calls succeed and the first English preferred entry has a
  non-empty \<open>fullname\<close> (\<open>returned_pref_name\<close>); \<open>correction_for\<close> is the correction
  due for a stored code: none when that name equals the stored one up to case.
  \<open>crop_of_eppo\<close> is the crop a code is linked to, \<open>corrected_crop\<close> says that some
  queued correction is for a code linked to the crop, \<open>crop_change_ok\<close> that a row of
  \<open>crops\<close> is as before or, for a linked crop whose scientific name was \<open>NULL\<close> or
  empty, differs in a now non-empty scientific name only, and \<open>eppo_change_ok\<close> that a
  row of \<open>eppo_codes\<close> differs in \<open>eppo_name\<close> at most.
\<close>

definition returned_pref_name :: "eppo_api \<Rightarrow> string \<Rightarrow> string option" where
  "returned_pref_name api code =
     (case get_taxon api code of
        Inl msg \<Rightarrow> None
      | Inr tx \<Rightarrow>
          (case get_names api code of
             Inl msg \<Rightarrow> None
           | Inr names \<Rightarrow>
               (case api_pref_name names of
                  None \<Rightarrow> None
                | Some pref \<Rightarrow> if pref = [] then None else Some pref)))"

definition returned_sci_name :: "eppo_api \<Rightarrow> string \<Rightarrow> string" where
  "returned_sci_name api code =
     (case get_taxon api code of
        Inl msg \<Rightarrow> []
      | Inr tx \<Rightarrow> (case t_fullname tx of None \<Rightarrow> [] | Some s \<Rightarrow> s))"

definition correction_for :: "eppo_api \<Rightarrow> eppo_row \<Rightarrow> (string \<times> string \<times> int) list" where
  "correction_for api e =
     (case returned_pref_name api (eppo_code e) of
        None \<Rightarrow> []
      | Some pref \<Rightarrow>
          if lower pref = lower (eppo_name e) then []
          else [(pref, returned_sci_name api (eppo_code e), eppo_code_id e)])"

definition verify_report_of :: "eppo_api \<Rightarrow> database \<Rightarrow> verify_report" where
  "verify_report_of api db =
     foldl (verify_row api) \<lparr>v_issues = [], v_updates = []\<rparr> (select_eppo_rows db)"

definition crop_of_eppo :: "database \<Rightarrow> int \<Rightarrow> int option" where
  "crop_of_eppo db eppo_id =
     map_option eppo_crop_id (find (\<lambda>e. eppo_code_id e = eppo_id) (eppo_codes db))"

definition corrected_crop :: "database \<Rightarrow> (string \<times> string \<times> int) list \<Rightarrow> int \<Rightarrow> bool" where
  "corrected_crop db us cid = list_ex (\<lambda>u. crop_of_eppo db (snd (snd u)) = Some cid) us"

definition blank_name :: "string option \<Rightarrow> bool" where
  "blank_name s = (s = None \<or> s = Some [])"

definition crop_change_ok :: "bool \<Rightarrow> crop_row \<Rightarrow> crop_row \<Rightarrow> bool" where
  "crop_change_ok linked c c' =
     (c' = c \<or>
      (linked \<and> blank_name (scientific_name c) \<and> \<not> blank_name (scientific_name c') \<and>
       c' = c\<lparr>scientific_name := scientific_name c'\<rparr>))"

definition eppo_change_ok :: "eppo_row \<Rightarrow> eppo_row \<Rightarrow> bool" where
  "eppo_change_ok e e' = (e' = e\<lparr>eppo_name := eppo_name e'\<rparr>)"

definition eppo_links :: "database \<Rightarrow> (int \<times> int) list" where
  "eppo_links db = map (\<lambda>e. (eppo_code_id e, eppo_crop_id e)) (eppo_codes db)"

definition other_tables_equal :: "database \<Rightarrow> database \<Rightarrow> bool" where
  "other_tables_equal d d' =
     (focus_scenarios d' = focus_scenarios d \<and> focus_crops d' = focus_crops d \<and>
      focus_crop_scenario_links d' = focus_crop_scenario_links d \<and>
      focus_crop_interception d' = focus_crop_interception d \<and>
      focus_sw_scenario_characteristics d' = focus_sw_scenario_characteristics d \<and>
      focus_crop_scenario_irrigation d' = focus_crop_scenario_irrigation d \<and>
      primo_commodities d' = primo_commodities d \<and>
      reg396_commodities d' = reg396_commodities d)"

definition irr0 :: pyval where
  "irr0 = PDict [(''irrigation'',
            PList [PDict [(''scenario_code'', PStr ''D1''), (''crop'', PStr ''Winter cereals''),
                          (''irrigation_mm_annual'', PInt 120)]])]"

(*PROPERTIES*)
section \<open>Properties of the hierarchy functions\<close>

lemma parse_hierarchy_level_seven_digits:
  "length s = 7 \<Longrightarrow> list_all is_digit s \<Longrightarrow>
   parse_hierarchy_level (Some s) =
     Some (if endswith s ''000'' then 1 else if endswith s ''00'' then 2 else 3)"
  by (auto simp add: parse_hierarchy_level_def match_d7_def py_str_def)

lemma parse_hierarchy_level_None: "parse_hierarchy_level None = None"
  by (simp add: parse_hierarchy_level_def)

lemma parse_hierarchy_level_too_short:
  "length s < 7 \<Longrightarrow> parse_hierarchy_level (Some s) = None"
  by (simp add: parse_hierarchy_level_def match_d7_def py_str_def)

text \<open>
  C3. The claim: \<open>parse_hierarchy_level\<close> returns \<open>None\<close> for every input that is not a
  string of exactly seven digits. The code tests the input with \<open>^\d{7}$\<close>, and \<open>$\<close>
  also matches before a final newline: for the eight-character string of the seven
  digits \<open>0110000\<close> and a newline the function returns level 3, not \<open>None\<close> (and not
  level 1 either, since the string does not end in \<open>000\<close>).
\<close>

theorem parse_hierarchy_level_trailing_newline:
  "parse_hierarchy_level (Some (''0110000'' @ [CHR 0x0A])) = Some 3"
  by (simp add: parse_hierarchy_level_def match_d7_def is_digit_def py_str_def endswith_def)

text \<open>
  C9. The claim: \<open>parent_code\<close> returns \<open>None\<close> or a seven-digit code, and
  \<open>parent_code('0110010') = '0110000'\<close>, as the comment in the code says too. The
  code returns \<open>c[:5] + '000'\<close> for a level-3 code, which has eight characters:
  for \<open>0110010\<close> it is \<open>01100000\<close>.
\<close>

theorem parent_code_level3_eight_chars:
  "parent_code (Some ''0110010'') = Some ''01100000'' \<and>
   parent_code (Some ''0110010'') \<noteq> Some ''0110000'' \<and>
   length (the (parent_code (Some ''0110010''))) = 8"
  by (simp add: parent_code_def match_d7_def is_digit_def py_str_def endswith_def)

theorem parent_code_level3_eight_chars_witness:
  "parent_code (Some ''0110010'') = Some ''01100000''"
  using parent_code_level3_eight_chars by simp

section \<open>Preview mode\<close>

lemma close_connect: "close (connect db) = db"
  by (simp add: close_def connect_def)

lemma close_working: "close ((connect db)\<lparr>working := w\<rparr>) = db"
  by (simp add: close_def connect_def)

lemma close_commit: "close (commit ((connect db)\<lparr>working := w\<rparr>)) = w"
  by (simp add: close_def connect_def commit_def)

lemma working_connect: "working (connect db) = db"
  by (simp add: connect_def)

lemma interception_preview: "snd (import_interception_from table sch db True) = db"
  by (simp add: import_interception_from_def Let_def close_connect close_working
      split: sum.splits prod.splits)

lemma characteristics_preview: "snd (import_characteristics sch fl f db True) = db"
  by (simp add: import_characteristics_def Let_def close_connect close_working
      split: sum.splits prod.splits)

lemma irrigation_preview: "snd (import_irrigation sch fl f db True) = db"
  by (simp add: import_irrigation_def Let_def close_connect close_working
      split: sum.splits prod.splits)

lemma links_preview: "snd (import_links sch f db True) = db"
  by (simp add: import_links_def Let_def close_connect close_working
      split: sum.splits prod.splits)

lemma csv_preview: "snd (import_from_csv sch fl a b db True) = db"
  by (simp add: import_from_csv_def Let_def close_connect close_working
      split: sum.splits prod.splits option.splits)

lemma mdb_preview: "snd (import_from_mdb h sch fl m db True) = db"
  by (simp add: import_from_mdb_def csv_preview split: option.splits prod.splits)

lemma verify_preview: "snd (verify_codes h api db True) = db"
  by (simp add: verify_codes_def Let_def close_connect)

lemma primo_preview: "snd (import_primo h sch fl wb db True v) = db"
  by (simp add: import_primo_def Let_def close_connect close_working
      split: sum.splits prod.splits option.splits)

lemma main_irrigation_preview: "snd (main_irrigation sch fl irr True ch db) = db"
  using irrigation_preview [of sch fl irr db]
  by (auto simp add: main_irrigation_def split: prod.splits outcome.splits)

lemma main_preview: "snd (main sch fl cj ij dbf False) = dbf"
proof (cases dbf)
  case None
  then show ?thesis by (simp add: main_def)
next
  case (Some db)
  obtain r d where r: "import_characteristics sch fl cj db True = (r, d)"
    by (cases "import_characteristics sch fl cj db True")
  have d: "d = db"
    using characteristics_preview [of sch fl cj db] r by simp
  show ?thesis
    using Some r d
    by (cases r) (simp_all add: main_def main_irrigation_preview)
qed


lemma primo_preview_working_copy:
  "find (\<lambda>c. common_name_en c = UNKNOWN_CROP) (crops db) = None \<Longrightarrow>
   length (crops (fst (unknown_crop db))) = Suc (length (crops db))"
  by (simp add: unknown_crop_def Let_def)

text \<open>
  C1. Run in preview mode (\<open>dry_run\<close> true; for \<open>main\<close> the apply flag false), every
  importer, and the verifier, leaves the stored database as it was, whatever the input
  and however the run ends (return, \<open>sys.exit\<close> or exception). \<open>import_primo\<close> does
  insert its placeholder crop into the working copy in preview mode too
  (\<open>primo_preview_working_copy\<close>), but it returns before \<open>commit\<close>, so the insertion
  is discarded.
\<close>

theorem preview_leaves_database_unchanged:
  "snd (import_interception sch db True) = db \<and>
   snd (import_interception_from table sch db True) = db \<and>
   snd (import_characteristics sch fl json_file db True) = db \<and>
   snd (import_irrigation sch fl json_file db True) = db \<and>
   snd (main sch fl char_json irr_json db_file False) = db_file \<and>
   snd (import_links sch json_file db True) = db \<and>
   snd (import_from_csv sch fl crop_csv cs_csv db True) = db \<and>
   snd (import_from_mdb has_pyodbc sch fl mdb db True) = db \<and>
   snd (verify_codes has_requests api db True) = db \<and>
   snd (import_primo has_openpyxl sch fl workbook db True version) = db"
  by (simp add: import_interception_def interception_preview characteristics_preview
      irrigation_preview main_preview links_preview csv_preview mdb_preview verify_preview
      primo_preview)

theorem preview_leaves_database_unchanged_witness:
  "snd (import_primo True schema0 fl0
          (Some [(''Commodity list'',
                  [[], [], [], [CInt 110010, CStr ''Grapefruits'', CStr ''Grapefruit'', CInt 160]])])
          db0 True ''Rev 3.1'') = db0 \<and>
   snd (verify_codes True api0 db0 True) = db0"
  using preview_leaves_database_unchanged [of schema0 db0] by blast

section \<open>Interception importer\<close>

lemma upsert_interception_Nil [simp]: "upsert_interception sch [] db = db"
  by (simp add: upsert_interception_def)

lemma upsert_interception_append:
  "upsert_interception sch (a @ b) db = upsert_interception sch b (upsert_interception sch a db)"
  by (simp add: upsert_interception_def)

lemma select_focus_crop_id_upsert [simp]:
  "select_focus_crop_id (upsert_interception sch rows db) name = select_focus_crop_id db name"
  by (simp add: select_focus_crop_id_def upsert_interception_def)

lemma stage_None:
  "interception_stage sch dry_run fid (bbch, None, source) (db, rep) =
     Inr (db, rep\<lparr>ic_stubbed := ic_stubbed rep + 1\<rparr>)"
  by (simp add: interception_stage_def)

lemma stage_Some_apply:
  "interception_stage sch False fid (bbch, Some p, source) (db, rep) =
     Inr (upsert_interception sch
            [\<lparr>ic_focus_crop_id = fid, bbch_stage = bbch, interception_pct = p,
              interception_source = source\<rparr>] db,
          rep\<lparr>ic_inserted := ic_inserted rep + 1\<rparr>)"
  by (simp add: interception_stage_def upsert_interception_def)

lemma stage_Some_preview:
  "interception_stage sch True fid (bbch, Some p, source) (db, rep) = Inr (db, rep)"
  by (simp add: interception_stage_def)

lemma stage_rows_Cons_None [simp]:
  "stage_rows fid ((bbch, None, source) # es) = stage_rows fid es"
  by (simp add: stage_rows_def)

lemma stage_rows_Cons_Some [simp]:
  "stage_rows fid ((bbch, Some p, source) # es) =
     \<lparr>ic_focus_crop_id = fid, bbch_stage = bbch, interception_pct = p,
      interception_source = source\<rparr> # stage_rows fid es"
  by (simp add: stage_rows_def)

lemma stub_count_Cons_None [simp]:
  "stub_count ((bbch, None, source) # es) = Suc (stub_count es)"
  by (simp add: stub_count_def)

lemma stub_count_Cons_Some [simp]:
  "stub_count ((bbch, Some p, source) # es) = stub_count es"
  by (simp add: stub_count_def)

lemma upsert_interception_Cons:
  "upsert_interception sch (r # rs) db = upsert_interception sch rs (upsert_interception sch [r] db)"
  by (simp add: upsert_interception_def)

lemma stage_loop_apply:
  "for_each (interception_stage sch False fid) stages (db, rep) =
     Inr (upsert_interception sch (stage_rows fid stages) db,
          rep\<lparr>ic_inserted := ic_inserted rep + length (stage_rows fid stages),
              ic_stubbed := ic_stubbed rep + stub_count stages\<rparr>)"
proof (induction stages arbitrary: db rep)
  case Nil
  show ?case by (simp add: stage_rows_def stub_count_def)
next
  case (Cons e es)
  obtain bbch pct source where e: "e = (bbch, pct, source)" by (cases e)
  show ?case
  proof (cases pct)
    case None
    then show ?thesis
      using e by (simp add: stage_None Cons.IH)
  next
    case (Some p)
    then show ?thesis
      using e by (simp add: stage_Some_apply Cons.IH upsert_interception_Cons [symmetric])
  qed
qed

lemma stage_loop_preview:
  "for_each (interception_stage sch True fid) stages (db, rep) =
     Inr (db, rep\<lparr>ic_stubbed := ic_stubbed rep + stub_count stages\<rparr>)"
proof (induction stages arbitrary: rep)
  case Nil
  show ?case by (simp add: stub_count_def)
next
  case (Cons e es)
  obtain bbch pct source where e: "e = (bbch, pct, source)" by (cases e)
  show ?case
    using e by (cases pct) (simp_all add: stage_None stage_Some_preview Cons.IH)
qed

lemma crop_unmatched:
  "select_focus_crop_id db name = None \<Longrightarrow>
   interception_crop sch dry_run (name, stages) (db, rep) =
     Inr (db, rep\<lparr>ic_skipped := ic_skipped rep + 1, ic_warned := ic_warned rep @ [name]\<rparr>)"
  by (simp add: interception_crop_def)

lemma crop_matched:
  "select_focus_crop_id db name = Some fid \<Longrightarrow>
   interception_crop sch dry_run (name, stages) (db, rep) =
     for_each (interception_stage sch dry_run fid) stages (db, rep)"
  by (simp add: interception_crop_def)

lemma table_Cons_unmatched:
  assumes "select_focus_crop_id db name = None"
  shows "filled_rows db ((name, stages) # items) = filled_rows db items"
    and "counted_stubs db ((name, stages) # items) = counted_stubs db items"
    and "unmatched_crops db ((name, stages) # items) = name # unmatched_crops db items"
  using assms
  by (simp_all add: filled_rows_def counted_stubs_def unmatched_crops_def matched_crops_def)

lemma table_Cons_matched:
  assumes "select_focus_crop_id db name = Some fid"
  shows "filled_rows db ((name, stages) # items) = stage_rows fid stages @ filled_rows db items"
    and "counted_stubs db ((name, stages) # items) = stub_count stages + counted_stubs db items"
    and "unmatched_crops db ((name, stages) # items) = unmatched_crops db items"
  using assms
  by (simp_all add: filled_rows_def counted_stubs_def unmatched_crops_def matched_crops_def)

lemma table_upsert:
  "filled_rows (upsert_interception sch rows db) items = filled_rows db items"
  "counted_stubs (upsert_interception sch rows db) items = counted_stubs db items"
  "unmatched_crops (upsert_interception sch rows db) items = unmatched_crops db items"
  by (simp_all add: filled_rows_def counted_stubs_def unmatched_crops_def matched_crops_def)

lemma crop_loop_apply:
  "for_each (interception_crop sch False) table (db, rep) =
     Inr (upsert_interception sch (filled_rows db table) db,
          rep\<lparr>ic_inserted := ic_inserted rep + length (filled_rows db table),
              ic_stubbed := ic_stubbed rep + counted_stubs db table,
              ic_skipped := ic_skipped rep + length (unmatched_crops db table),
              ic_warned := ic_warned rep @ unmatched_crops db table\<rparr>)"
proof (induction table arbitrary: db rep)
  case Nil
  show ?case by (simp add: filled_rows_def counted_stubs_def unmatched_crops_def matched_crops_def)
next
  case (Cons item items)
  obtain name stages where item: "item = (name, stages)" by (cases item)
  show ?case
  proof (cases "select_focus_crop_id db name")
    case None
    then show ?thesis
      using item by (simp add: crop_unmatched Cons.IH table_Cons_unmatched)
  next
    case (Some fid)
    then show ?thesis
      using item
      by (simp add: crop_matched stage_loop_apply Cons.IH table_Cons_matched table_upsert
          upsert_interception_append)
  qed
qed

lemma crop_loop_preview:
  "for_each (interception_crop sch True) table (db, rep) =
     Inr (db,
          rep\<lparr>ic_stubbed := ic_stubbed rep + counted_stubs db table,
              ic_skipped := ic_skipped rep + length (unmatched_crops db table),
              ic_warned := ic_warned rep @ unmatched_crops db table\<rparr>)"
proof (induction table arbitrary: rep)
  case Nil
  show ?case by (simp add: counted_stubs_def unmatched_crops_def matched_crops_def)
next
  case (Cons item items)
  obtain name stages where item: "item = (name, stages)" by (cases item)
  show ?case
  proof (cases "select_focus_crop_id db name")
    case None
    then show ?thesis
      using item by (simp add: crop_unmatched Cons.IH table_Cons_unmatched)
  next
    case (Some fid)
    then show ?thesis
      using item
      by (simp add: crop_matched stage_loop_preview Cons.IH table_Cons_matched)
  qed
qed

text \<open>
  C8, as amended. In apply mode the importer upserts exactly the entries with a filled
  percentage whose crop has a row in \<open>focus_crops\<close>, in the order of the table, and
  \<open>inserted\<close> is their number. It counts as stubbed the entries without a percentage
  of those crops only: a crop without a row is counted once in \<open>skipped\<close>, with a
  warning, and none of its entries is looked at. In preview mode the counters
  \<open>stubbed\<close> and \<open>skipped\<close> are the same, \<open>inserted\<close> is 0 and nothing is written.
\<close>

theorem interception_upserts_filled_entries_of_known_crops:
  "import_interception_from table sch db False =
     (Returned \<lparr>ic_inserted = length (filled_rows db table),
                ic_stubbed = counted_stubs db table,
                ic_skipped = length (unmatched_crops db table),
                ic_warned = unmatched_crops db table\<rparr>,
      upsert_interception sch (filled_rows db table) db) \<and>
   import_interception_from table sch db True =
     (Returned \<lparr>ic_inserted = 0,
                ic_stubbed = counted_stubs db table,
                ic_skipped = length (unmatched_crops db table),
                ic_warned = unmatched_crops db table\<rparr>, db)"
  by (simp add: import_interception_from_def Let_def working_connect close_working close_connect
      close_commit crop_loop_apply crop_loop_preview)


text \<open>
  C8 as stated fails: it says every entry whose percentage is \<open>None\<close> is counted as
  stubbed. On the table of the source file, all 73 entries of which are stubs, and a
  database that knows one of the nine crops, the importer counts 10.
\<close>

theorem interception_stubs_of_unknown_crops_not_counted:
  "fst (import_interception schema0 db0 False) =
     Returned \<lparr>ic_inserted = 0, ic_stubbed = 10, ic_skipped = 8,
               ic_warned = [''Spring cereals'', ''Maize'', ''Winter oilseed rape'', ''Potatoes'',
                            ''Sugar beet'', ''Apples and pears'', ''Vines'', ''Grass'']\<rparr> \<and>
   stub_count (concat (map snd INTERCEPTION_DATA)) = 73"
  by code_simp

theorem interception_upserts_filled_entries_of_known_crops_witness:
  "import_interception_from table1 schema0 db0 False =
     (Returned \<lparr>ic_inserted = 1, ic_stubbed = 1, ic_skipped = 1, ic_warned = [''Grass'']\<rparr>,
      db0\<lparr>focus_crop_interception :=
            [\<lparr>ic_focus_crop_id = 1, bbch_stage = 0, interception_pct = 25,
              interception_source = ''x''\<rparr>]\<rparr>)"
proof -
  have a: "filled_rows db0 table1 =
             [\<lparr>ic_focus_crop_id = 1, bbch_stage = 0, interception_pct = 25,
               interception_source = ''x''\<rparr>]"
    by code_simp
  have b: "counted_stubs db0 table1 = 1" by code_simp
  have c: "unmatched_crops db0 table1 = [''Grass'']" by code_simp
  have d: "focus_crop_interception db0 = []" by (simp add: db0_def)
  show ?thesis
    using interception_upserts_filled_entries_of_known_crops [of table1 schema0 db0]
    by (simp add: a b c d upsert_interception_def insert_or_replace_def)
qed

section \<open>EPPO verifier\<close>

lemma verify_row_updates:
  "v_updates (verify_row api rep ec) = v_updates rep @ correction_for api (fst ec)"
  by (simp add: verify_row_def correction_for_def returned_pref_name_def returned_sci_name_def
      Let_def split: sum.splits option.splits)

lemma verify_loop_updates:
  "v_updates (foldl (verify_row api) rep rows) =
     v_updates rep @ concat (map (\<lambda>ec. correction_for api (fst ec)) rows)"
  by (induction rows arbitrary: rep) (simp_all add: verify_row_updates)

lemma verify_report_of_updates:
  "v_updates (verify_report_of api db) =
     concat (map (\<lambda>ec. correction_for api (fst ec)) (select_eppo_rows db))"
  by (simp add: verify_report_of_def verify_loop_updates)

lemma set_select_eppo_rows:
  "set (select_eppo_rows db) =
     {(e, c). e \<in> set (eppo_codes db) \<and> c \<in> set (crops db) \<and> crop_id c = eppo_crop_id e}"
  by (auto simp add: select_eppo_rows_def)

lemma verify_codes_result:
  "verify_codes True api db dry_run =
     (Returned (Some (verify_report_of api db)),
      if dry_run then db else foldl apply_correction db (v_updates (verify_report_of api db)))"
  by (simp add: verify_codes_def verify_report_of_def Let_def working_connect close_connect
      close_commit)

text \<open>
  C7. The verifier reads every stored code that is joined to a crop, and the list of
  queued corrections is, in the order of the rows, one correction for each row whose
  code has a preferred English name from the API that differs from the stored name
  after both are put in lower case, and none for the other rows. The stored database
  changes only without \<open>dry_run\<close>, and then by the queued corrections.
\<close>

theorem verifier_queues_exactly_the_mismatches:
  "fst (verify_codes True api db dry_run) = Returned (Some (verify_report_of api db)) \<and>
   set (select_eppo_rows db) =
     {(e, c). e \<in> set (eppo_codes db) \<and> c \<in> set (crops db) \<and> crop_id c = eppo_crop_id e} \<and>
   v_updates (verify_report_of api db) =
     concat (map (\<lambda>ec. correction_for api (fst ec)) (select_eppo_rows db)) \<and>
   (correction_for api e \<noteq> [] \<longleftrightarrow>
      (\<exists>pref. returned_pref_name api (eppo_code e) = Some pref \<and>
              lower pref \<noteq> lower (eppo_name e))) \<and>
   snd (verify_codes True api db True) = db \<and>
   snd (verify_codes True api db False) =
     foldl apply_correction db (v_updates (verify_report_of api db))"
  by (simp add: verify_codes_result set_select_eppo_rows verify_report_of_updates)
     (simp add: correction_for_def split: option.splits)

theorem verifier_queues_exactly_the_mismatches_witness:
  "v_updates (verify_report_of api0 db0) = [(''Common wheat'', ''Triticum aestivum'', 1)] \<and>
   correction_for api0 eppo_barley = [] \<and>
   returned_pref_name api0 ''HORVX'' = Some ''Barley'' \<and>
   snd (verify_codes True api0 db0 True) = db0"
proof -
  have a: "concat (map (\<lambda>ec. correction_for api0 (fst ec)) (select_eppo_rows db0)) =
             [(''Common wheat'', ''Triticum aestivum'', 1)]"
    by code_simp
  have b: "correction_for api0 eppo_barley = []" by code_simp
  have c: "returned_pref_name api0 ''HORVX'' = Some ''Barley''" by code_simp
  show ?thesis
    using verifier_queues_exactly_the_mismatches [of api0 db0 True eppo_barley] a b c
    by simp
qed

lemma find_links:
  "map_option eppo_crop_id (find (\<lambda>e. eppo_code_id e = i) es) =
   map_option snd (find (\<lambda>p. fst p = i) (map (\<lambda>e. (eppo_code_id e, eppo_crop_id e)) es))"
  by (induction es) simp_all

lemma crop_of_eppo_links:
  "crop_of_eppo db i = map_option snd (find (\<lambda>p. fst p = i) (eppo_links db))"
  by (simp add: crop_of_eppo_def eppo_links_def find_links)

lemma crop_of_eppo_cong:
  "eppo_links d1 = eppo_links d \<Longrightarrow> crop_of_eppo d1 i = crop_of_eppo d i"
  by (simp add: crop_of_eppo_links)

lemma corrected_crop_cong:
  "eppo_links d1 = eppo_links d \<Longrightarrow> corrected_crop d1 us cid = corrected_crop d us cid"
  by (simp add: corrected_crop_def crop_of_eppo_links)

lemma eppo_links_update_name [simp]:
  "eppo_links (update_eppo_name n i d) = eppo_links d"
  by (simp add: eppo_links_def update_eppo_name_def)

lemma crops_update_name [simp]: "crops (update_eppo_name n i d) = crops d"
  by (simp add: update_eppo_name_def)

lemma eppo_codes_update_sci [simp]:
  "eppo_codes (update_scientific_name s i d) = eppo_codes d"
  by (simp add: update_scientific_name_def split: option.splits)

lemma eppo_links_update_sci [simp]:
  "eppo_links (update_scientific_name s i d) = eppo_links d"
  by (simp add: eppo_links_def)

lemma crops_update_sci:
  "crops (update_scientific_name s i d) =
     map (\<lambda>c. if crop_of_eppo d i = Some (crop_id c) \<and> blank_name (scientific_name c)
               then c\<lparr>scientific_name := Some s\<rparr> else c) (crops d)"
proof (cases "find (\<lambda>e. eppo_code_id e = i) (eppo_codes d)")
  case None
  then show ?thesis
    by (simp add: update_scientific_name_def crop_of_eppo_def)
next
  case (Some e)
  then show ?thesis
    by (auto simp add: update_scientific_name_def crop_of_eppo_def blank_name_def)
qed

lemma eppo_links_apply [simp]: "eppo_links (apply_correction d u) = eppo_links d"
  by (cases u) (simp add: apply_correction_def Let_def)

lemma eppo_codes_apply:
  "eppo_codes (apply_correction d (n, s, i)) =
     map (\<lambda>e. if eppo_code_id e = i then e\<lparr>eppo_name := n\<rparr> else e) (eppo_codes d)"
  by (simp add: apply_correction_def Let_def update_eppo_name_def)

lemma crops_apply:
  "crops (apply_correction d (n, s, i)) =
     map (\<lambda>c. if s \<noteq> [] \<and> crop_of_eppo d i = Some (crop_id c) \<and> blank_name (scientific_name c)
               then c\<lparr>scientific_name := Some s\<rparr> else c) (crops d)"
proof (cases "s = []")
  case True
  then show ?thesis by (simp add: apply_correction_def Let_def)
next
  case False
  have "crop_of_eppo (update_eppo_name n i d) i = crop_of_eppo d i"
    by (rule crop_of_eppo_cong) simp
  with False show ?thesis
    by (simp add: apply_correction_def Let_def crops_update_sci)
qed

lemma other_tables_apply:
  "focus_scenarios (apply_correction d u) = focus_scenarios d"
  "focus_crops (apply_correction d u) = focus_crops d"
  "focus_crop_scenario_links (apply_correction d u) = focus_crop_scenario_links d"
  "focus_crop_interception (apply_correction d u) = focus_crop_interception d"
  "focus_sw_scenario_characteristics (apply_correction d u) = focus_sw_scenario_characteristics d"
  "focus_crop_scenario_irrigation (apply_correction d u) = focus_crop_scenario_irrigation d"
  "primo_commodities (apply_correction d u) = primo_commodities d"
  "reg396_commodities (apply_correction d u) = reg396_commodities d"
  by (cases u; simp add: apply_correction_def Let_def update_eppo_name_def
        update_scientific_name_def split: option.splits)+

lemma other_tables_fold:
  "focus_scenarios (foldl apply_correction d us) = focus_scenarios d"
  "focus_crops (foldl apply_correction d us) = focus_crops d"
  "focus_crop_scenario_links (foldl apply_correction d us) = focus_crop_scenario_links d"
  "focus_crop_interception (foldl apply_correction d us) = focus_crop_interception d"
  "focus_sw_scenario_characteristics (foldl apply_correction d us) =
     focus_sw_scenario_characteristics d"
  "focus_crop_scenario_irrigation (foldl apply_correction d us) = focus_crop_scenario_irrigation d"
  "primo_commodities (foldl apply_correction d us) = primo_commodities d"
  "reg396_commodities (foldl apply_correction d us) = reg396_commodities d"
  by (induction us arbitrary: d; simp add: other_tables_apply)+

lemma eppo_links_fold [simp]: "eppo_links (foldl apply_correction d us) = eppo_links d"
  by (induction us arbitrary: d) simp_all

lemma eppo_change_ok_refl: "eppo_change_ok e e"
  by (simp add: eppo_change_ok_def)

lemma eppo_change_ok_iff: "eppo_change_ok e e' \<longleftrightarrow> (\<exists>n. e' = e\<lparr>eppo_name := n\<rparr>)"
proof
  assume "eppo_change_ok e e'"
  then have "e' = e\<lparr>eppo_name := eppo_name e'\<rparr>" by (simp add: eppo_change_ok_def)
  then show "\<exists>n. e' = e\<lparr>eppo_name := n\<rparr>" ..
next
  assume "\<exists>n. e' = e\<lparr>eppo_name := n\<rparr>"
  then obtain n where "e' = e\<lparr>eppo_name := n\<rparr>" ..
  then show "eppo_change_ok e e'" by (simp add: eppo_change_ok_def)
qed

lemma eppo_change_ok_trans:
  assumes "eppo_change_ok a b" and "eppo_change_ok b c"
  shows "eppo_change_ok a c"
proof -
  obtain n where b: "b = a\<lparr>eppo_name := n\<rparr>"
    using assms(1) by (auto simp add: eppo_change_ok_iff)
  obtain m where c: "c = b\<lparr>eppo_name := m\<rparr>"
    using assms(2) by (auto simp add: eppo_change_ok_iff)
  have "c = a\<lparr>eppo_name := m\<rparr>" by (simp add: b c)
  then show ?thesis by (auto simp add: eppo_change_ok_iff)
qed

lemma eppo_codes_fold:
  "list_all2 eppo_change_ok (eppo_codes d) (eppo_codes (foldl apply_correction d us))"
proof (induction us arbitrary: d)
  case Nil
  show ?case by (simp add: list_all2_refl eppo_change_ok_refl)
next
  case (Cons u us)
  obtain n s i where u: "u = (n, s, i)" by (cases u)
  have "list_all2 eppo_change_ok (eppo_codes d) (eppo_codes (apply_correction d u))"
    unfolding u eppo_codes_apply
    by (simp add: list_all2_map2 list_all2_refl eppo_change_ok_def)
  moreover have "list_all2 eppo_change_ok (eppo_codes (apply_correction d u))
                   (eppo_codes (foldl apply_correction (apply_correction d u) us))"
    by (rule Cons.IH)
  ultimately have "list_all2 eppo_change_ok (eppo_codes d)
                     (eppo_codes (foldl apply_correction (apply_correction d u) us))"
    by (rule list_all2_trans [rotated]) (rule eppo_change_ok_trans)
  then show ?case by simp
qed

lemma crop_change_step:
  assumes ok: "crop_change_ok L (if b then c\<lparr>scientific_name := Some s\<rparr> else c) c'"
    and b: "b \<Longrightarrow> s \<noteq> [] \<and> L' \<and> blank_name (scientific_name c)"
    and mono: "L \<Longrightarrow> L'"
  shows "crop_change_ok L' c c'"
proof (cases b)
  case False
  with ok mono show ?thesis by (auto simp add: crop_change_ok_def)
next
  case True
  then have s: "s \<noteq> []" and l: "L'" and bl: "blank_name (scientific_name c)"
    using b by simp_all
  have nb: "\<not> blank_name (Some s)" using s by (simp add: blank_name_def)
  from ok True have "c' = c\<lparr>scientific_name := Some s\<rparr>"
    using nb by (auto simp add: crop_change_ok_def)
  then show ?thesis
    using l bl nb by (simp add: crop_change_ok_def)
qed

lemma corrected_crop_Cons:
  "corrected_crop d (u # us) cid =
     (crop_of_eppo d (snd (snd u)) = Some cid \<or> corrected_crop d us cid)"
  by (simp add: corrected_crop_def)

lemma crops_fold:
  "list_all2 (\<lambda>c c'. crop_change_ok (corrected_crop d us (crop_id c)) c c')
     (crops d) (crops (foldl apply_correction d us))"
proof (induction us arbitrary: d)
  case Nil
  show ?case by (simp add: list_all2_refl crop_change_ok_def)
next
  case (Cons u us)
  obtain n s i where u: "u = (n, s, i)" by (cases u)
  let ?d1 = "apply_correction d u"
  let ?b = "\<lambda>c. s \<noteq> [] \<and> crop_of_eppo d i = Some (crop_id c) \<and> blank_name (scientific_name c)"
  let ?g = "\<lambda>c. if ?b c then c\<lparr>scientific_name := Some s\<rparr> else c"
  have ih: "list_all2 (\<lambda>c c'. crop_change_ok (corrected_crop ?d1 us (crop_id c)) c c')
              (map ?g (crops d)) (crops (foldl apply_correction ?d1 us))"
    using Cons.IH [of ?d1] by (simp add: u crops_apply)
  have cc: "\<And>cid. corrected_crop ?d1 us cid = corrected_crop d us cid"
    by (rule corrected_crop_cong) simp
  have gid: "\<And>c. crop_id (?g c) = crop_id c" by simp
  have step: "\<And>c c'. crop_change_ok (corrected_crop d us (crop_id c)) (?g c) c' \<Longrightarrow>
                crop_change_ok (corrected_crop d (u # us) (crop_id c)) c c'"
    by (erule crop_change_step) (simp_all add: corrected_crop_Cons u)
  have "list_all2 (\<lambda>c c'. crop_change_ok (corrected_crop d us (crop_id c)) (?g c) c')
          (crops d) (crops (foldl apply_correction ?d1 us))"
    using ih unfolding list_all2_map1 cc gid .
  then have "list_all2 (\<lambda>c c'. crop_change_ok (corrected_crop d (u # us) (crop_id c)) c c')
          (crops d) (crops (foldl apply_correction ?d1 us))"
    by (rule list_all2_mono) (rule step)
  then show ?case by simp
qed

lemma crop_change_ok_keeps:
  "crop_change_ok l c c' \<Longrightarrow> \<not> blank_name (scientific_name c) \<Longrightarrow> c' = c"
  by (auto simp add: crop_change_ok_def)

lemma crop_change_ok_unlinked: "crop_change_ok False c c' \<Longrightarrow> c' = c"
  by (simp add: crop_change_ok_def)

lemma verify_codes_db:
  "snd (verify_codes h api db dry_run) = db \<or>
   (h \<and> \<not> dry_run \<and>
    snd (verify_codes h api db dry_run) =
      foldl apply_correction db (v_updates (verify_report_of api db)))"
  by (simp add: verify_codes_def verify_report_of_def Let_def close_connect close_commit
      working_connect)

text \<open>
  C10. After a run of the verifier, in any mode, each row of \<open>crops\<close> is as before
  or has got a non-empty scientific name where it had \<open>NULL\<close> or the empty string, and
  the latter only for a crop linked to a corrected code in apply mode; each row of
  \<open>eppo_codes\<close> differs in \<open>eppo_name\<close> at most; no row is added or removed; and the
  other tables are as before. By \<open>crop_change_ok_keeps\<close> a row with a non-empty
  scientific name is left as it is.
\<close>

theorem verifier_changes_only_names:
  "list_all2 (\<lambda>c c'. crop_change_ok
                (h \<and> \<not> dry_run \<and>
                 corrected_crop db (v_updates (verify_report_of api db)) (crop_id c)) c c')
     (crops db) (crops (snd (verify_codes h api db dry_run))) \<and>
   list_all2 eppo_change_ok (eppo_codes db) (eppo_codes (snd (verify_codes h api db dry_run))) \<and>
   other_tables_equal db (snd (verify_codes h api db dry_run))"
proof -
  let ?us = "v_updates (verify_report_of api db)"
  consider (same) "snd (verify_codes h api db dry_run) = db"
    | (applied) "h" "\<not> dry_run"
        "snd (verify_codes h api db dry_run) = foldl apply_correction db ?us"
    using verify_codes_db [of h api db dry_run] by blast
  then show ?thesis
  proof cases
    case same
    then show ?thesis
      by (simp add: list_all2_refl crop_change_ok_def eppo_change_ok_refl other_tables_equal_def)
  next
    case applied
    then show ?thesis
      using crops_fold [of db ?us] eppo_codes_fold [of db ?us]
      by (simp add: other_tables_equal_def other_tables_fold)
  qed
qed

theorem verifier_changes_only_names_witness:
  "crops (snd (verify_codes True api0 db0 False)) =
     [wheat\<lparr>scientific_name := Some ''Triticum aestivum''\<rparr>, barley] \<and>
   list_all2 eppo_change_ok (eppo_codes db0) (eppo_codes (snd (verify_codes True api0 db0 False))) \<and>
   other_tables_equal db0 (snd (verify_codes True api0 db0 False))"
proof -
  have "crops (snd (verify_codes True api0 db0 False)) =
          [wheat\<lparr>scientific_name := Some ''Triticum aestivum''\<rparr>, barley]"
    by code_simp
  then show ?thesis
    using verifier_changes_only_names [of True False db0 api0] by simp
qed

section \<open>Missing inputs\<close>

text \<open>
  C6 as stated fails: it says that an absent source file ends the process at once.
  \<open>main\<close> of the FOCUS importer, called with \<open>--apply\<close> when the characteristics file is
  absent and the irrigation file is present, prints that it skips the characteristics
  and imports the irrigation records.
\<close>

theorem main_runs_without_characteristics_file:
  "main schema0 fl0 None (Some irr0) (Some db0) True =
     (Returned \<lparr>mr_characteristics = None,
                mr_irrigation = Some \<lparr>ir_inserted = 1, ir_skipped = []\<rparr>\<rparr>,
      Some (db0\<lparr>focus_crop_scenario_irrigation :=
                 [\<lparr>ir_focus_crop_id = 1, ir_scenario_id = 1, irrigation_mm_annual = 120,
                   ir_source_reference = SOURCE_REF\<rparr>]\<rparr>))"
  by code_simp

text \<open>
  C6, as amended. An absent database ends \<open>main\<close> of the FOCUS importer by \<open>sys.exit\<close>
  with a message; so do an absent CSV export in \<open>import_from_csv\<close>, an absent
  \<open>pyodbc\<close> in \<open>import_from_mdb\<close> and an absent \<open>openpyxl\<close> in \<open>import_primo\<close>. An
  absent file given to \<open>import_links\<close>, \<open>import_characteristics\<close>, \<open>import_irrigation\<close>
  or \<open>import_primo\<close> ends the process by an uncaught exception. Without \<open>requests\<close>
  the verifier prints a message and returns without checking a code. In each of
  these cases no item is processed and the database is as before. In \<open>main\<close> an absent
  JSON file is not fatal: that importer is skipped and the next one runs.
\<close>

theorem missing_inputs:
  "main sch fl char_json irr_json None apply_flag = (Exited ''Database not found'', None) \<and>
   main sch fl None irr_json (Some db) apply_flag =
     map_prod id Some (main_irrigation sch fl irr_json (\<not> apply_flag) None db) \<and>
   main_irrigation sch fl None dry_run ch db =
     (Returned \<lparr>mr_characteristics = ch, mr_irrigation = None\<rparr>, db) \<and>
   import_from_csv sch fl None cs_csv db dry_run = (Exited ''Not found: crop.csv'', db) \<and>
   import_from_csv sch fl (Some crop_rows) None db dry_run =
     (Exited ''Not found: cropscenario.csv'', db) \<and>
   import_from_mdb False sch fl mdb db dry_run =
     (Exited ''pyodbc not installed. Run: pip install pyodbc'', db) \<and>
   import_primo False sch fl workbook db dry_run version =
     (Exited ''openpyxl not installed. Run: pip install openpyxl'', db) \<and>
   import_primo True sch fl None db dry_run version = (Raised FileNotFoundError, db) \<and>
   import_links sch None db dry_run = (Raised FileNotFoundError, db) \<and>
   import_characteristics sch fl None db dry_run = (Raised FileNotFoundError, db) \<and>
   import_irrigation sch fl None db dry_run = (Raised FileNotFoundError, db) \<and>
   verify_codes False api db dry_run = (Returned None, db)"
  by (simp add: main_def main_irrigation_def import_from_csv_def import_from_mdb_def
      import_primo_def import_links_def import_characteristics_def import_irrigation_def
      load_json_def ebind_def verify_codes_def Let_def close_connect)

theorem missing_inputs_witness:
  "main schema0 fl0 None (Some irr0) None True = (Exited ''Database not found'', None) \<and>
   verify_codes False api0 db0 False = (Returned None, db0)"
  using missing_inputs [where sch = schema0 and fl = fl0 and char_json = None
      and irr_json = "Some irr0" and apply_flag = True and db = db0 and api = api0
      and dry_run = False]
  by simp

end
